theory Spec2Isabelle
  imports Complex_Main "HOL-Library.Signed_Division" "HOL-Library.AList" "HOL-Library.Multiset"
begin

section \<open>Conventions of the embedding\<close>

text \<open>
  The Go program is embedded as follows.
  \<^item> \<open>float64\<close> is \<open>real\<close>: distances and speeds are computed in exact arithmetic.
    Division by a zero float is written out where the source divides (\<open>1.0 / 0\<close> is
    \<open>+Inf\<close> in Go, whereas \<open>1 / 0 = 0\<close> in HOL).
  \<^item> \<open>int\<close> is the mathematical \<open>int\<close>; Go's \<open>/\<close> and \<open>%\<close> truncate towards
    zero and are \<open>sdiv\<close> and \<open>smod\<close>.
  \<^item> \<open>time.Time\<close> is an \<open>int\<close>, the nanoseconds since a fixed origin; every call of
    \<open>time.Now()\<close> is an argument \<open>now\<close> of the function that makes the call.
  \<^item> \<open>uuid.New().String()\<close> and \<open>rng.Intn\<close> read outside sources: a function
    \<open>nat \<Rightarrow> string\<close> (respectively \<open>nat \<Rightarrow> nat\<close>) enumerates the successive
    results and a counter says how many were consumed.
  \<^item> A Go \<open>map[string]*T\<close> is an association list with distinct keys; \<open>range\<close> over
    the map visits it in list order (Go leaves the order unspecified, so no statement
    below fixes more about the order than "the order the loop visited the entries").
  \<^item> A struct is a record, an embedded struct a record extension; a pointer to an
    entity is the entity's key in the map that owns it, and a write through the
    pointer is an update of that map entry.
  \<^item> Mutexes are not modelled: every command runs alone, as the lock enforces.
\<close>

type_synonym time = int

definition Second :: int where
  "Second = 1000000000"

definition Millisecond :: int where
  "Millisecond = 1000000"

definition Hour :: int where
  "Hour = 3600 * Second"

text \<open>\<open>d.Seconds()\<close> of a \<open>time.Duration\<close>.\<close>

definition Seconds :: "int \<Rightarrow> real" where
  "Seconds d = real_of_int d / 1000000000"

text \<open>The conversion \<open>int(x)\<close> of a float truncates towards zero.\<close>

definition go_int :: "real \<Rightarrow> int" where
  "go_int x = (if 0 \<le> x then \<lfloor>x\<rfloor> else \<lceil>x\<rceil>)"

section \<open>Configuration (package config)\<close>

record Position =
  X :: real
  Y :: real

record GameSettings =
  StartingGold :: int
  StartingLives :: int
  TickRateMs :: int
  BroadcastIntervalMs :: int

record TowerConfig =
  Cost :: int
  Range :: real
  Damage :: int
  FireRate :: real
  SplashRadius :: real

record EnemyConfig =
  HP :: int
  Speed :: real
  GoldReward :: int
  ScoreReward :: int

record ProjectileConfig =
  Speed :: real

record WaveComposition =
  Basic :: int
  Fast :: int
  Tank :: int
  Boss :: int

record WaveConfig =
  SpawnIntervalTicks :: int
  EnemiesPerWaveBase :: int
  EnemiesPerWaveMultiplier :: real
  HPScalePerWave :: real
  EarlyWaves :: WaveComposition
  MidWaves :: WaveComposition
  LateWaves :: WaveComposition
  BossWaves :: WaveComposition

record MapConfig =
  Width :: int
  Height :: int
  Path :: "Position list"
  PathHalfWidth :: real

record PlacementConfig =
  MinDistanceFromPath :: real
  MinTowerSpacing :: real
  MaxTowers :: int

record GameConfig =
  Game :: GameSettings
  Towers :: "string \<rightharpoonup> TowerConfig"
  Enemies :: "string \<rightharpoonup> EnemyConfig"
  Projectiles :: "string \<rightharpoonup> ProjectileConfig"
  Waves :: WaveConfig
  Map :: MapConfig
  Placement :: PlacementConfig

datatype error =
    UnknownTowerType string
  | UnknownEnemyType string
  | UnknownProjectileType string
  | NoEnemiesForWave int
  | ErrNotEnoughGold
  | ErrInvalidPlacement
  | DecodeError

definition GetTowerConfig :: "GameConfig \<Rightarrow> string \<Rightarrow> error + TowerConfig" where
  "GetTowerConfig c towerType =
     (case Towers c towerType of
        None \<Rightarrow> Inl (UnknownTowerType towerType)
      | Some cfg \<Rightarrow> Inr cfg)"

definition GetEnemyConfig :: "GameConfig \<Rightarrow> string \<Rightarrow> error + EnemyConfig" where
  "GetEnemyConfig c enemyType =
     (case Enemies c enemyType of
        None \<Rightarrow> Inl (UnknownEnemyType enemyType)
      | Some cfg \<Rightarrow> Inr cfg)"

definition GetProjectileConfig :: "GameConfig \<Rightarrow> string \<Rightarrow> error + ProjectileConfig" where
  "GetProjectileConfig c projType =
     (case Projectiles c projType of
        None \<Rightarrow> Inl (UnknownProjectileType projType)
      | Some cfg \<Rightarrow> Inr cfg)"

definition GetWaveComposition :: "GameConfig \<Rightarrow> int \<Rightarrow> WaveComposition" where
  "GetWaveComposition c wave =
     (if wave smod 10 = 0 then BossWaves (Waves c)
      else if wave \<le> 5 then EarlyWaves (Waves c)
      else if wave \<le> 10 then MidWaves (Waves c)
      else LateWaves (Waves c))"

definition ScaleEnemyHP :: "GameConfig \<Rightarrow> int \<Rightarrow> int \<Rightarrow> int" where
  "ScaleEnemyHP c baseHP wave =
     (if wave \<le> 1 then baseHP
      else let scale = HPScalePerWave (Waves c);
               scaled = real_of_int baseHP * (1 + (real_of_int (wave - 1) * (scale - 1)))
           in go_int scaled)"

section \<open>Snapshot transfer objects (package game, state.go)\<close>

text \<open>
  \<open>PosDTO\<close> has the fields of \<open>Position\<close> and is the same record here. The transfer
  records are declared before the entities, whose field names they share; their fields
  are written with the record's name.
\<close>

record TowerDTO =
  ID :: string
  Type :: string
  Position :: Position
  Range :: real
  Damage :: int
  FireRate :: real
  SplashRadius :: real

record EnemyDTO =
  ID :: string
  Type :: string
  Position :: Position
  HP :: int
  MaxHP :: int
  Speed :: real
  PathIndex :: int

record ProjectileDTO =
  ID :: string
  Type :: string
  Position :: Position
  Target :: string
  Speed :: real
  Damage :: int
  SplashRadius :: real

record GameStateSnapshot =
  Towers :: "TowerDTO list"
  Enemies :: "EnemyDTO list"
  Projectiles :: "ProjectileDTO list"
  Wave :: int
  Gold :: int
  Lives :: int
  Score :: int
  GameOver :: bool
  Path :: "Position list"
  MapWidth :: int
  MapHeight :: int

section \<open>Entities (package ecs, entity.go)\<close>

datatype EntityType = EntityTypeTower | EntityTypeEnemy | EntityTypeProjectile

record BaseEntity =
  ID :: string
  Type :: EntityType
  Position :: Position
  Alive :: bool

record TowerEntity = BaseEntity +
  TowerType :: string
  Range :: real
  Damage :: int
  FireRate :: real
  SplashRadius :: real
  LastShot :: time

record EnemyEntity = BaseEntity +
  EnemyType :: string
  HP :: int
  MaxHP :: int
  Speed :: real
  PathIndex :: int
  GoldReward :: int
  ScoreReward :: int

record ProjectileEntity = BaseEntity +
  ProjectileType :: string
  Target :: string
  Speed :: real
  Damage :: int
  SplashRadius :: real

datatype Entity =
    TowerE TowerEntity
  | EnemyE EnemyEntity
  | ProjectileE ProjectileEntity

text \<open>
  \<open>CanShoot\<close> compares the seconds since the last shot with \<open>1.0 / FireRate\<close>. For a
  fire rate of zero the quotient is \<open>+Inf\<close> in Go and no elapsed time reaches it.
\<close>

definition CanShoot :: "TowerEntity \<Rightarrow> time \<Rightarrow> bool" where
  "CanShoot t now =
     (let elapsed = Seconds (now - LastShot t)
      in if TowerEntity.FireRate t = 0 then False
         else elapsed \<ge> 1 / TowerEntity.FireRate t)"

definition Shoot :: "TowerEntity \<Rightarrow> time \<Rightarrow> TowerEntity" where
  "Shoot t now = t\<lparr>LastShot := now\<rparr>"

definition TakeDamage :: "EnemyEntity \<Rightarrow> int \<Rightarrow> EnemyEntity" where
  "TakeDamage e damage =
     (let e1 = e\<lparr>EnemyEntity.HP := EnemyEntity.HP e - damage\<rparr>
      in if EnemyEntity.HP e1 \<le> 0 then e1\<lparr>EnemyEntity.HP := 0, Alive := False\<rparr> else e1)"

section \<open>The entity store (package ecs, world.go)\<close>

text \<open>
  \<open>entities\<close> maps an identifier to the entity stored under it. The stored pointer is
  the one held by the per-kind map (\<open>AddEntity\<close> writes both, every deletion removes
  both), so the model keeps the kind of the stored entity and reads the entity itself
  from the map of that kind.
\<close>

record World =
  entities :: "(string \<times> EntityType) list"
  towers :: "(string \<times> TowerEntity) list"
  enemies :: "(string \<times> EnemyEntity) list"
  projectiles :: "(string \<times> ProjectileEntity) list"

definition NewWorld :: World where
  "NewWorld = \<lparr>entities = [], towers = [], enemies = [], projectiles = []\<rparr>"

fun AddEntity :: "World \<Rightarrow> Entity \<Rightarrow> World" where
  "AddEntity w (TowerE e) =
     w\<lparr>entities := AList.update (ID e) EntityTypeTower (entities w),
       towers := AList.update (ID e) e (towers w)\<rparr>"
| "AddEntity w (EnemyE e) =
     w\<lparr>entities := AList.update (ID e) EntityTypeEnemy (entities w),
       enemies := AList.update (ID e) e (enemies w)\<rparr>"
| "AddEntity w (ProjectileE e) =
     w\<lparr>entities := AList.update (ID e) EntityTypeProjectile (entities w),
       projectiles := AList.update (ID e) e (projectiles w)\<rparr>"

definition delete_typed :: "string \<Rightarrow> EntityType \<Rightarrow> World \<Rightarrow> World" where
  "delete_typed i k w =
     (case k of
        EntityTypeTower \<Rightarrow> w\<lparr>towers := AList.delete i (towers w)\<rparr>
      | EntityTypeEnemy \<Rightarrow> w\<lparr>enemies := AList.delete i (enemies w)\<rparr>
      | EntityTypeProjectile \<Rightarrow> w\<lparr>projectiles := AList.delete i (projectiles w)\<rparr>)"

definition RemoveEntity :: "World \<Rightarrow> string \<Rightarrow> World" where
  "RemoveEntity w i =
     (case map_of (entities w) i of
        None \<Rightarrow> w
      | Some k \<Rightarrow> delete_typed i k (w\<lparr>entities := AList.delete i (entities w)\<rparr>))"

definition GetTowers :: "World \<Rightarrow> TowerEntity list" where
  "GetTowers w = filter Alive (map snd (towers w))"

definition GetEnemies :: "World \<Rightarrow> EnemyEntity list" where
  "GetEnemies w = filter Alive (map snd (enemies w))"

definition GetProjectiles :: "World \<Rightarrow> ProjectileEntity list" where
  "GetProjectiles w = filter Alive (map snd (projectiles w))"

definition GetEnemy :: "World \<Rightarrow> string \<Rightarrow> EnemyEntity option" where
  "GetEnemy w i = map_of (enemies w) i"

text \<open>
  \<open>entity.IsAlive()\<close> for the entity stored under an identifier of \<open>entities\<close>. The
  entity is always present in the map of its kind (see \<open>world_inv\<close> below).
\<close>

definition IsAlive_stored :: "World \<Rightarrow> string \<Rightarrow> EntityType \<Rightarrow> bool" where
  "IsAlive_stored w i k =
     (case k of
        EntityTypeTower \<Rightarrow> (case map_of (towers w) i of Some e \<Rightarrow> Alive e | None \<Rightarrow> True)
      | EntityTypeEnemy \<Rightarrow> (case map_of (enemies w) i of Some e \<Rightarrow> Alive e | None \<Rightarrow> True)
      | EntityTypeProjectile \<Rightarrow>
          (case map_of (projectiles w) i of Some e \<Rightarrow> Alive e | None \<Rightarrow> True))"

definition cleanup_step :: "string \<times> EntityType \<Rightarrow> World \<times> string list \<Rightarrow> World \<times> string list" where
  "cleanup_step p acc =
     (case acc of (w, removed) \<Rightarrow>
        if \<not> IsAlive_stored w (fst p) (snd p)
        then (delete_typed (fst p) (snd p) (w\<lparr>entities := AList.delete (fst p) (entities w)\<rparr>),
              removed @ [fst p])
        else (w, removed))"

definition CleanupDeadEntities :: "World \<Rightarrow> World \<times> string list" where
  "CleanupDeadEntities w = fold cleanup_step (entities w) (w, [])"

definition Clear :: "World \<Rightarrow> World" where
  "Clear w = w\<lparr>entities := [], towers := [], enemies := [], projectiles := []\<rparr>"

definition EntityCount :: "World \<Rightarrow> int" where
  "EntityCount w = int (length (entities w))"

definition TowerCount :: "World \<Rightarrow> int" where
  "TowerCount w = int (length (filter Alive (map snd (towers w))))"

text \<open>Writes through an entity pointer: the entry of the owning map is replaced.\<close>

definition update_tower :: "string \<Rightarrow> (TowerEntity \<Rightarrow> TowerEntity) \<Rightarrow> World \<Rightarrow> World" where
  "update_tower i f w = w\<lparr>towers := AList.map_entry i f (towers w)\<rparr>"

definition update_enemy :: "string \<Rightarrow> (EnemyEntity \<Rightarrow> EnemyEntity) \<Rightarrow> World \<Rightarrow> World" where
  "update_enemy i f w = w\<lparr>enemies := AList.map_entry i f (enemies w)\<rparr>"

definition update_projectile ::
  "string \<Rightarrow> (ProjectileEntity \<Rightarrow> ProjectileEntity) \<Rightarrow> World \<Rightarrow> World" where
  "update_projectile i f w = w\<lparr>projectiles := AList.map_entry i f (projectiles w)\<rparr>"

section \<open>The entity factory (package ecs, factory.go)\<close>

text \<open>
  The argument \<open>uid\<close> of a constructor is the string that \<open>uuid.New().String()\<close>
  returns in it; \<open>now\<close> is the clock reading of \<open>CreateTower\<close>.
\<close>

definition CreateTower ::
  "GameConfig \<Rightarrow> string \<Rightarrow> time \<Rightarrow> string \<Rightarrow> Position \<Rightarrow> error + TowerEntity" where
  "CreateTower c uid now towerType pos =
     (case GetTowerConfig c towerType of
        Inl err \<Rightarrow> Inl err
      | Inr cfg \<Rightarrow>
          Inr \<lparr>ID = uid, Type = EntityTypeTower, Position = pos, Alive = True,
               TowerType = towerType,
               Range = TowerConfig.Range cfg,
               Damage = TowerConfig.Damage cfg,
               FireRate = TowerConfig.FireRate cfg,
               SplashRadius = TowerConfig.SplashRadius cfg,
               LastShot = now - Hour\<rparr>)"

definition CreateEnemy ::
  "GameConfig \<Rightarrow> string \<Rightarrow> string \<Rightarrow> Position \<Rightarrow> int \<Rightarrow> error + EnemyEntity" where
  "CreateEnemy c uid enemyType pos wave =
     (case GetEnemyConfig c enemyType of
        Inl err \<Rightarrow> Inl err
      | Inr cfg \<Rightarrow>
          (let hp = ScaleEnemyHP c (EnemyConfig.HP cfg) wave
           in Inr \<lparr>ID = uid, Type = EntityTypeEnemy, Position = pos, Alive = True,
                   EnemyType = enemyType,
                   HP = hp,
                   MaxHP = hp,
                   Speed = EnemyConfig.Speed cfg,
                   PathIndex = 0,
                   GoldReward = EnemyConfig.GoldReward cfg,
                   ScoreReward = EnemyConfig.ScoreReward cfg\<rparr>))"

definition CreateProjectile ::
  "GameConfig \<Rightarrow> string \<Rightarrow> string \<Rightarrow> Position \<Rightarrow> string \<Rightarrow> int \<Rightarrow> real
     \<Rightarrow> error + ProjectileEntity" where
  "CreateProjectile c uid projType pos targetID damage splashRadius =
     (case GetProjectileConfig c projType of
        Inl err \<Rightarrow> Inl err
      | Inr cfg \<Rightarrow>
          Inr \<lparr>ID = uid, Type = EntityTypeProjectile, Position = pos, Alive = True,
               ProjectileType = projType,
               Target = targetID,
               Speed = ProjectileConfig.Speed cfg,
               Damage = damage,
               SplashRadius = splashRadius\<rparr>)"

text \<open>
  The closure \<open>createN\<close> of \<open>CreateEnemiesForWave\<close>: \<open>count\<close> iterations, each
  appending one enemy; \<open>k\<close> counts the identifiers drawn so far.
\<close>

fun createN ::
  "GameConfig \<Rightarrow> (nat \<Rightarrow> string) \<Rightarrow> Position \<Rightarrow> int \<Rightarrow> string \<Rightarrow> nat
     \<Rightarrow> EnemyEntity list \<times> nat \<Rightarrow> (error + EnemyEntity list) \<times> nat" where
  "createN c gen startPos wave enemyType 0 acc = (Inr (fst acc), snd acc)"
| "createN c gen startPos wave enemyType (Suc n) acc =
     (case CreateEnemy c (gen (snd acc)) enemyType startPos wave of
        Inl err \<Rightarrow> (Inl err, snd acc)
      | Inr enemy \<Rightarrow>
          createN c gen startPos wave enemyType n (fst acc @ [enemy], Suc (snd acc)))"

text \<open>One guarded call \<open>if composition.T > 0 { createN(T, composition.T) }\<close>.\<close>

definition createN_if ::
  "GameConfig \<Rightarrow> (nat \<Rightarrow> string) \<Rightarrow> Position \<Rightarrow> int \<Rightarrow> string \<Rightarrow> int
     \<Rightarrow> EnemyEntity list \<times> nat \<Rightarrow> (error + EnemyEntity list) \<times> nat" where
  "createN_if c gen startPos wave enemyType cnt acc =
     (if cnt > 0 then createN c gen startPos wave enemyType (nat cnt) acc
      else (Inr (fst acc), snd acc))"

definition CreateEnemiesForWave ::
  "GameConfig \<Rightarrow> (nat \<Rightarrow> string) \<Rightarrow> nat \<Rightarrow> int \<Rightarrow> Position
     \<Rightarrow> (error + EnemyEntity list) \<times> nat" where
  "CreateEnemiesForWave c gen k wave startPos =
     (let composition = GetWaveComposition c wave
      in case createN_if c gen startPos wave ''basic'' (Basic composition) ([], k) of
           (Inl err, k1) \<Rightarrow> (Inl err, k1)
         | (Inr e1, k1) \<Rightarrow>
        (case createN_if c gen startPos wave ''fast'' (Fast composition) (e1, k1) of
           (Inl err, k2) \<Rightarrow> (Inl err, k2)
         | (Inr e2, k2) \<Rightarrow>
        (case createN_if c gen startPos wave ''tank'' (Tank composition) (e2, k2) of
           (Inl err, k3) \<Rightarrow> (Inl err, k3)
         | (Inr e3, k3) \<Rightarrow>
        (case createN_if c gen startPos wave ''boss'' (Boss composition) (e3, k3) of
           (Inl err, k4) \<Rightarrow> (Inl err, k4)
         | (Inr e4, k4) \<Rightarrow>
             if length e4 = 0 then (Inl (NoEnemiesForWave wave), k4) else (Inr e4, k4)))))"

section \<open>Projectile resolution (package systems, ProjectileSystem)\<close>

definition splash_hit :: "Position \<Rightarrow> real \<Rightarrow> int \<Rightarrow> string \<Rightarrow> EnemyEntity \<Rightarrow> EnemyEntity" where
  "splash_hit impactPos radius splashDamage primaryTargetID enemy =
     (if \<not> Alive enemy \<or> ID enemy = primaryTargetID then enemy
      else let dx = X (Position enemy) - X impactPos;
               dy = Y (Position enemy) - Y impactPos;
               dist = sqrt (dx * dx + dy * dy)
           in if dist \<le> radius then TakeDamage enemy splashDamage else enemy)"

text \<open>
  \<open>applySplashDamage\<close> visits the alive enemies once each and writes only to the enemy
  it visits, so the loop is a map over the entries of the enemy map.
\<close>

definition applySplashDamage :: "World \<Rightarrow> Position \<Rightarrow> real \<Rightarrow> int \<Rightarrow> string \<Rightarrow> World" where
  "applySplashDamage w impactPos radius damage primaryTargetID =
     (let splashDamage0 = damage sdiv 2;
          splashDamage = (if splashDamage0 < 1 then 1 else splashDamage0)
      in w\<lparr>enemies :=
             map (\<lambda>p. (fst p, splash_hit impactPos radius splashDamage primaryTargetID (snd p)))
                 (enemies w)\<rparr>)"

text \<open>The body of the loop of \<open>ProjectileSystem.Update\<close> for the projectile stored under \<open>i\<close>.\<close>

definition projectile_step :: "real \<Rightarrow> string \<Rightarrow> World \<Rightarrow> World" where
  "projectile_step dt i w =
     (case map_of (projectiles w) i of
        None \<Rightarrow> w
      | Some proj \<Rightarrow>
          if \<not> Alive proj then w
          else
            (case GetEnemy w (Target proj) of
               None \<Rightarrow> update_projectile i (\<lambda>p. p\<lparr>Alive := False\<rparr>) w
             | Some target \<Rightarrow>
                 if \<not> Alive target then update_projectile i (\<lambda>p. p\<lparr>Alive := False\<rparr>) w
                 else
                   (let dx = X (Position target) - X (Position proj);
                        dy = Y (Position target) - Y (Position proj);
                        distance = sqrt (dx * dx + dy * dy);
                        moveDistance = ProjectileEntity.Speed proj * dt * 60
                    in if distance \<le> moveDistance
                       then
                         (let w1 = update_enemy (Target proj)
                                     (\<lambda>e. TakeDamage e (ProjectileEntity.Damage proj)) w;
                              w2 = update_projectile i (\<lambda>p. p\<lparr>Alive := False\<rparr>) w1
                          in if ProjectileEntity.SplashRadius proj > 0
                             then applySplashDamage w2 (Position target)
                                    (ProjectileEntity.SplashRadius proj)
                                    (ProjectileEntity.Damage proj) (ID target)
                             else w2)
                       else
                         (let ratio = moveDistance / distance;
                              newPos = \<lparr>X = X (Position proj) + dx * ratio,
                                        Y = Y (Position proj) + dy * ratio\<rparr>
                          in update_projectile i (\<lambda>p. p\<lparr>Position := newPos\<rparr>) w))))"

definition ProjectileSystem_Update :: "World \<Rightarrow> real \<Rightarrow> World" where
  "ProjectileSystem_Update w dt = fold (projectile_step dt) (map ID (GetProjectiles w)) w"

section \<open>Rewards (package systems, RewardSystem)\<close>

text \<open>
  The callback \<open>onReward\<close> acts on a state \<open>'s\<close> of its owner (the game's economy);
  \<open>None\<close> is the nil callback.
\<close>

definition reward_step ::
  "(int \<Rightarrow> int \<Rightarrow> 's \<Rightarrow> 's) option \<Rightarrow> string \<Rightarrow> World \<times> 's \<Rightarrow> World \<times> 's" where
  "reward_step onReward i acc =
     (case acc of (w, st) \<Rightarrow>
        (case map_of (enemies w) i of
           None \<Rightarrow> (w, st)
         | Some enemy \<Rightarrow>
             if EnemyEntity.HP enemy \<le> 0 \<and> Alive enemy
             then (update_enemy i (\<lambda>e. e\<lparr>Alive := False\<rparr>) w,
                   (case onReward of
                      None \<Rightarrow> st
                    | Some f \<Rightarrow> f (EnemyEntity.GoldReward enemy) (EnemyEntity.ScoreReward enemy) st))
             else (w, st)))"

definition RewardSystem_Update ::
  "(int \<Rightarrow> int \<Rightarrow> 's \<Rightarrow> 's) option \<Rightarrow> World \<Rightarrow> 's \<Rightarrow> World \<times> 's" where
  "RewardSystem_Update onReward w st =
     fold (reward_step onReward) (map ID (GetEnemies w)) (w, st)"

section \<open>Lifecycle (package systems, LifecycleSystem)\<close>

definition lifecycle_step ::
  "int \<Rightarrow> (int \<Rightarrow> 's \<Rightarrow> 's) option \<Rightarrow> string \<Rightarrow> World \<times> 's \<Rightarrow> World \<times> 's" where
  "lifecycle_step pathLength onLifeLost i acc =
     (case acc of (w, st) \<Rightarrow>
        (case map_of (enemies w) i of
           None \<Rightarrow> (w, st)
         | Some enemy \<Rightarrow>
             if Alive enemy \<and> PathIndex enemy \<ge> pathLength - 1
             then (update_enemy i (\<lambda>e. e\<lparr>Alive := False\<rparr>) w,
                   (case onLifeLost of None \<Rightarrow> st | Some f \<Rightarrow> f 1 st))
             else (w, st)))"

definition LifecycleSystem_Update ::
  "int \<Rightarrow> (int \<Rightarrow> 's \<Rightarrow> 's) option \<Rightarrow> World \<Rightarrow> 's \<Rightarrow> World \<times> 's" where
  "LifecycleSystem_Update pathLength onLifeLost w st =
     (case fold (lifecycle_step pathLength onLifeLost) (map ID (GetEnemies w)) (w, st) of
        (w1, st1) \<Rightarrow> (fst (CleanupDeadEntities w1), st1))"

section \<open>Enemy movement (package systems, MovementSystem)\<close>

fun fold_option :: "('a \<Rightarrow> 'b \<Rightarrow> 'b option) \<Rightarrow> 'a list \<Rightarrow> 'b \<Rightarrow> 'b option" where
  "fold_option f [] s = Some s"
| "fold_option f (x # xs) s = (case f x s of None \<Rightarrow> None | Some s' \<Rightarrow> fold_option f xs s')"

definition movement_step :: "Position list \<Rightarrow> real \<Rightarrow> string \<Rightarrow> World \<Rightarrow> World option" where
  "movement_step path dt i w =
     (case map_of (enemies w) i of
        None \<Rightarrow> Some w
      | Some enemy \<Rightarrow>
          if \<not> Alive enemy then Some w
          else if PathIndex enemy \<ge> int (length path) - 1 then Some w
          else if PathIndex enemy + 1 < 0 then None
          else
            (let target = path ! nat (PathIndex enemy + 1);
                 current = Position enemy;
                 dx = X target - X current;
                 dy = Y target - Y current;
                 distance = sqrt (dx * dx + dy * dy)
             in if distance < 1
                then Some (update_enemy i (\<lambda>e. e\<lparr>PathIndex := PathIndex e + 1\<rparr>) w)
                else
                  (let moveDistance0 = EnemyEntity.Speed enemy * dt * 60;
                       moveDistance = (if moveDistance0 > distance then distance else moveDistance0);
                       ratio = moveDistance / distance;
                       newPos = \<lparr>X = X current + dx * ratio, Y = Y current + dy * ratio\<rparr>
                   in Some (update_enemy i (\<lambda>e. e\<lparr>Position := newPos\<rparr>) w))))"

definition MovementSystem_Update :: "Position list \<Rightarrow> World \<Rightarrow> real \<Rightarrow> World option" where
  "MovementSystem_Update path w dt = fold_option (movement_step path dt) (map ID (GetEnemies w)) w"

section \<open>Targeting and firing (package systems, CombatSystem)\<close>

fun closest_loop ::
  "TowerEntity \<Rightarrow> EnemyEntity list \<Rightarrow> EnemyEntity option \<times> real \<Rightarrow> EnemyEntity option \<times> real" where
  "closest_loop tower [] acc = acc"
| "closest_loop tower (enemy # es) acc =
     (if \<not> Alive enemy then closest_loop tower es acc
      else
        (let dx = X (Position enemy) - X (Position tower);
             dy = Y (Position enemy) - Y (Position tower);
             dist = sqrt (dx * dx + dy * dy)
         in if dist < snd acc then closest_loop tower es (Some enemy, dist)
            else closest_loop tower es acc))"

definition projType_of :: "TowerEntity \<Rightarrow> string" where
  "projType_of tower =
     (if TowerType tower = ''sniper'' then ''sniper''
      else if TowerType tower = ''splash'' then ''splash''
      else ''basic'')"

definition combat_step ::
  "GameConfig \<Rightarrow> (nat \<Rightarrow> string) \<Rightarrow> time \<Rightarrow> EnemyEntity list \<Rightarrow> string \<Rightarrow> World \<times> nat
     \<Rightarrow> World \<times> nat" where
  "combat_step c gen now es i acc =
     (case acc of (w, k) \<Rightarrow>
        (case map_of (towers w) i of
           None \<Rightarrow> (w, k)
         | Some tower \<Rightarrow>
             if \<not> Alive tower then (w, k)
             else if \<not> CanShoot tower now then (w, k)
             else
               (case fst (closest_loop tower es (None, TowerEntity.Range tower)) of
                  None \<Rightarrow> (w, k)
                | Some closestEnemy \<Rightarrow>
                    (case CreateProjectile c (gen k) (projType_of tower) (Position tower)
                            (ID closestEnemy) (TowerEntity.Damage tower)
                            (TowerEntity.SplashRadius tower) of
                       Inl err \<Rightarrow> (w, k)
                     | Inr projectile \<Rightarrow>
                         (update_tower i (\<lambda>t. Shoot t now) (AddEntity w (ProjectileE projectile)),
                          Suc k)))))"

definition CombatSystem_Update ::
  "GameConfig \<Rightarrow> (nat \<Rightarrow> string) \<Rightarrow> time \<Rightarrow> World \<times> nat \<Rightarrow> World \<times> nat" where
  "CombatSystem_Update c gen now acc =
     (let ts = GetTowers (fst acc);
          es = GetEnemies (fst acc)
      in fold (combat_step c gen now es) (map ID ts) acc)"

section \<open>Wave spawning (package systems, WaveSystem)\<close>

record WaveSystem =
  startPos :: Position
  currentWave :: int
  remainingInWave :: int
  nextEnemySpawn :: time
  lastWaveTime :: time
  waveInterval :: int
  rngPos :: nat

text \<open>The zero \<open>time.Time\<close> (1 January of year 1), with the Unix epoch as origin.\<close>

definition zeroTime :: time where
  "zeroTime = - 62135596800 * Second"

definition NewWaveSystem :: "Position \<Rightarrow> time \<Rightarrow> WaveSystem" where
  "NewWaveSystem pos now =
     \<lparr>startPos = pos, currentWave = 0, remainingInWave = 0, nextEnemySpawn = zeroTime,
      lastWaveTime = now, waveInterval = 10 * Second, rngPos = 0\<rparr>"

text \<open>\<open>rng.Intn(n)\<close> panics for \<open>n \<le> 0\<close>; \<open>None\<close> is the panic.\<close>

definition Intn :: "(nat \<Rightarrow> nat) \<Rightarrow> WaveSystem \<Rightarrow> int \<Rightarrow> (int \<times> WaveSystem) option" where
  "Intn rand s n =
     (if n \<le> 0 then None
      else Some (int (rand (rngPos s) mod nat n), s\<lparr>rngPos := Suc (rngPos s)\<rparr>))"

definition selectEnemyType ::
  "(nat \<Rightarrow> nat) \<Rightarrow> WaveSystem \<Rightarrow> WaveComposition \<Rightarrow> (string \<times> WaveSystem) option" where
  "selectEnemyType rand s cmp =
     (let total = Basic cmp + Fast cmp + Tank cmp + Boss cmp
      in if total = 0 then Some (''basic'', s)
         else
           (case Intn rand s total of
              None \<Rightarrow> None
            | Some (roll, s1) \<Rightarrow>
                if roll < Basic cmp then Some (''basic'', s1)
                else
                  (let roll1 = roll - Basic cmp
                   in if roll1 < Fast cmp then Some (''fast'', s1)
                      else
                        (let roll2 = roll1 - Fast cmp
                         in if roll2 < Tank cmp then Some (''tank'', s1)
                            else Some (''boss'', s1)))))"

definition nextSpawnDelay :: "(nat \<Rightarrow> nat) \<Rightarrow> WaveSystem \<Rightarrow> int \<times> WaveSystem" where
  "nextSpawnDelay rand s =
     (let baseDelay = 120;
          variance = 181;
          delay = baseDelay + int (rand (rngPos s) mod nat variance)
      in (delay * Millisecond, s\<lparr>rngPos := Suc (rngPos s)\<rparr>))"

definition spawnWave ::
  "GameConfig \<Rightarrow> (nat \<Rightarrow> string) \<Rightarrow> (nat \<Rightarrow> nat) \<Rightarrow> time \<Rightarrow> WaveSystem \<times> World \<times> nat
     \<Rightarrow> WaveSystem \<times> World \<times> nat" where
  "spawnWave c gen rand now acc =
     (case acc of (s, w, k) \<Rightarrow>
        (let s1 = s\<lparr>currentWave := currentWave s + 1\<rparr>
         in case CreateEnemiesForWave c gen k (currentWave s1) (startPos s1) of
              (Inl err, k1) \<Rightarrow> (s1, w, k1)
            | (Inr batch, k1) \<Rightarrow>
                (let s2 = s1\<lparr>remainingInWave := int (length batch)\<rparr>
                 in case batch of
                      [] \<Rightarrow> (s2, w, k1)
                    | e0 # rest \<Rightarrow>
                        (let w1 = AddEntity w (EnemyE e0);
                             s3 = s2\<lparr>remainingInWave := remainingInWave s2 - 1\<rparr>;
                             s4 = fold (\<lambda>i t. t\<lparr>remainingInWave := remainingInWave t + 1\<rparr>)
                                    [1..<length batch] s3;
                             ds = nextSpawnDelay rand s4
                         in ((snd ds)\<lparr>nextEnemySpawn := now + fst ds\<rparr>, w1, k1)))))"

definition spawnNextEnemy ::
  "GameConfig \<Rightarrow> (nat \<Rightarrow> string) \<Rightarrow> (nat \<Rightarrow> nat) \<Rightarrow> WaveSystem \<times> World \<times> nat
     \<Rightarrow> (WaveSystem \<times> World \<times> nat) option" where
  "spawnNextEnemy c gen rand acc =
     (case acc of (s, w, k) \<Rightarrow>
        if remainingInWave s \<le> 0 then Some (s, w, k)
        else
          (let composition = GetWaveComposition c (currentWave s)
           in case selectEnemyType rand s composition of
                None \<Rightarrow> None
              | Some (enemyType, s1) \<Rightarrow>
                  (case CreateEnemy c (gen k) enemyType (startPos s1) (currentWave s1) of
                     Inl err \<Rightarrow> Some (s1, w, k)
                   | Inr enemy \<Rightarrow>
                       Some (s1\<lparr>remainingInWave := remainingInWave s1 - 1\<rparr>,
                             AddEntity w (EnemyE enemy), Suc k))))"

function drip_loop ::
  "GameConfig \<Rightarrow> (nat \<Rightarrow> string) \<Rightarrow> (nat \<Rightarrow> nat) \<Rightarrow> time \<Rightarrow> WaveSystem \<times> World \<times> nat
     \<Rightarrow> (WaveSystem \<times> World \<times> nat) option" where
  "drip_loop c gen rand now acc =
     (if remainingInWave (fst acc) > 0 \<and> now > nextEnemySpawn (fst acc)
      then
        (case spawnNextEnemy c gen rand acc of
           None \<Rightarrow> None
         | Some acc1 \<Rightarrow>
             (let ds = nextSpawnDelay rand (fst acc1)
              in drip_loop c gen rand now
                   ((snd ds)\<lparr>nextEnemySpawn := now + fst ds\<rparr>, snd acc1)))
      else Some acc)"
  by pat_completeness auto
termination
proof (relation "measure (\<lambda>(c, gen, rand, now, acc).
          if remainingInWave (fst acc) > 0 \<and> now > nextEnemySpawn (fst acc) then 1 else 0)")
  show "wf (measure (\<lambda>(c, gen, rand, now, acc).
          if remainingInWave (fst acc) > 0 \<and> now > nextEnemySpawn (fst acc) then 1 else 0))"
    by simp
next
  fix c :: GameConfig and gen :: "nat \<Rightarrow> string" and rand :: "nat \<Rightarrow> nat" and now :: time
    and acc acc1 :: "WaveSystem \<times> World \<times> nat" and ds :: "int \<times> WaveSystem"
  assume "0 < remainingInWave (fst acc) \<and> nextEnemySpawn (fst acc) < now"
    and "ds = nextSpawnDelay rand (fst acc1)"
  moreover have "0 < fst (nextSpawnDelay rand (fst acc1))"
    by (simp add: nextSpawnDelay_def Let_def Millisecond_def)
  ultimately show "((c, gen, rand, now, (snd ds)\<lparr>nextEnemySpawn := now + fst ds\<rparr>, snd acc1),
          (c, gen, rand, now, acc)) \<in> measure (\<lambda>(c, gen, rand, now, acc).
          if remainingInWave (fst acc) > 0 \<and> now > nextEnemySpawn (fst acc) then 1 else 0)"
    by simp
qed

declare drip_loop.simps [simp del]

definition WaveSystem_Update ::
  "GameConfig \<Rightarrow> (nat \<Rightarrow> string) \<Rightarrow> (nat \<Rightarrow> nat) \<Rightarrow> time \<Rightarrow> time \<Rightarrow> WaveSystem \<times> World \<times> nat
     \<Rightarrow> (WaveSystem \<times> World \<times> nat) option" where
  "WaveSystem_Update c gen rand now nowSpawn acc =
     (let acc1 =
            (if remainingInWave (fst acc) = 0 \<and> now - lastWaveTime (fst acc) > waveInterval (fst acc)
             then (case spawnWave c gen rand nowSpawn acc of
                     (s1, rest) \<Rightarrow> (s1\<lparr>lastWaveTime := now\<rparr>, rest))
             else acc)
      in drip_loop c gen rand now acc1)"

section \<open>The game instance (package game, game.go)\<close>

record GameState =
  Wave :: int
  Gold :: int
  Lives :: int
  Score :: int
  GameOver :: bool

text \<open>
  The fields of \<open>Game\<close> that hold state. \<open>path\<close> is the path of the movement system,
  \<open>pathLength\<close> the one of the lifecycle system; \<open>uuidPos\<close> counts the identifiers
  drawn from \<open>uuid.New()\<close>. The tick observer \<open>onTick\<close> reads the world and changes
  nothing, and is left out.
\<close>

record Game =
  gameId :: string
  config :: GameConfig
  world :: World
  state :: GameState
  running :: bool
  lastUpdate :: time
  path :: "Position list"
  waveSystem :: WaveSystem
  pathLength :: int
  uuidPos :: nat

text \<open>The two callbacks that \<open>NewGame\<close> hands to the reward and lifecycle systems.\<close>

definition onReward :: "int \<Rightarrow> int \<Rightarrow> GameState \<Rightarrow> GameState" where
  "onReward gold score st = st\<lparr>Gold := Gold st + gold, Score := Score st + score\<rparr>"

definition onLifeLost :: "int \<Rightarrow> GameState \<Rightarrow> GameState" where
  "onLifeLost lives st =
     (let st1 = st\<lparr>Lives := Lives st - lives\<rparr>
      in if Lives st1 \<le> 0 then st1\<lparr>GameOver := True\<rparr> else st1)"

definition NewGame :: "string \<Rightarrow> GameConfig \<Rightarrow> time \<Rightarrow> Game" where
  "NewGame i cfg now =
     (let startPos0 = (case MapConfig.Path (Map cfg) of
                         [] \<Rightarrow> \<lparr>X = 0, Y = 250\<rparr>
                       | p # ps \<Rightarrow> \<lparr>X = X p, Y = Y p\<rparr>)
      in \<lparr>gameId = i, config = cfg, world = NewWorld,
          state = \<lparr>Wave = 0, Gold = StartingGold (Game cfg), Lives = StartingLives (Game cfg),
                   Score = 0, GameOver = False\<rparr>,
          running = False, lastUpdate = now,
          path = MapConfig.Path (Map cfg),
          waveSystem = NewWaveSystem startPos0 now,
          pathLength = int (length (MapConfig.Path (Map cfg))),
          uuidPos = 0\<rparr>)"

text \<open>
  One tick. \<open>now\<close> is the clock reading of \<open>Game.Update\<close> and of the stages it runs,
  \<open>nowSpawn\<close> the later reading inside \<open>spawnWave\<close>. \<open>None\<close> is a panic of a stage.
\<close>

definition Game_Update ::
  "(nat \<Rightarrow> string) \<Rightarrow> (nat \<Rightarrow> nat) \<Rightarrow> time \<Rightarrow> time \<Rightarrow> Game \<Rightarrow> Game option" where
  "Game_Update gen rand now nowSpawn g =
     (if GameOver (state g) then Some g
      else
        (let dt0 = Seconds (now - lastUpdate g);
             dt1 = (if dt0 < 0 then 0 else dt0);
             dt = (if dt1 > 0.05 then 0.05 else dt1);
             st0 = (state g)\<lparr>Wave := currentWave (waveSystem g)\<rparr>
         in case WaveSystem_Update (config g) gen rand now nowSpawn
                   (waveSystem g, world g, uuidPos g) of
              None \<Rightarrow> None
            | Some (ws, w1, k1) \<Rightarrow>
                (case MovementSystem_Update (path g) w1 dt of
                   None \<Rightarrow> None
                 | Some w2 \<Rightarrow>
                     (case CombatSystem_Update (config g) gen now (w2, k1) of
                        (w3, k3) \<Rightarrow>
                          (let w4 = ProjectileSystem_Update w3 dt
                           in case RewardSystem_Update (Some onReward) w4 st0 of
                                (w5, st5) \<Rightarrow>
                                  (case LifecycleSystem_Update (pathLength g) (Some onLifeLost)
                                          w5 st5 of
                                     (w6, st6) \<Rightarrow>
                                       Some (g\<lparr>world := w6, state := st6, lastUpdate := now,
                                                waveSystem := ws, uuidPos := k3\<rparr>)))))))"

text \<open>\<open>distanceToSegment\<close> as the source computes it.\<close>

definition distanceToSegment :: "Position \<Rightarrow> Position \<Rightarrow> Position \<Rightarrow> real" where
  "distanceToSegment p a b =
     (let dx = X b - X a;
          dy = Y b - Y a
      in if dx = 0 \<and> dy = 0
         then (let px = X p - X a; py = Y p - Y a in px * px + py * py)
         else
           (let t0 = ((X p - X a) * dx + (Y p - Y a) * dy) / (dx * dx + dy * dy);
                t = (if t0 < 0 then 0 else if t0 > 1 then 1 else t0);
                nearestX = X a + t * dx;
                nearestY = Y a + t * dy;
                px = X p - nearestX;
                py = Y p - nearestY
            in px * px + py * py))"

text \<open>The loop over the segments \<open>path[i]\<close>, \<open>path[i+1]\<close> of \<open>isValidPlacement\<close>.\<close>

fun path_clear :: "Position \<Rightarrow> real \<Rightarrow> Position list \<Rightarrow> bool" where
  "path_clear pos minDistFromPath (p1 # p2 # rest) =
     (if distanceToSegment pos p1 p2 < minDistFromPath then False
      else path_clear pos minDistFromPath (p2 # rest))"
| "path_clear pos minDistFromPath ps = True"

text \<open>The loop over the towers of \<open>isValidPlacement\<close>.\<close>

fun towers_clear :: "Position \<Rightarrow> real \<Rightarrow> TowerEntity list \<Rightarrow> bool" where
  "towers_clear pos minSpacing [] = True"
| "towers_clear pos minSpacing (tower # ts) =
     (let dx = X pos - X (Position tower);
          dy = Y pos - Y (Position tower);
          d = dx * dx + dy * dy
      in if d < minSpacing * minSpacing then False
         else towers_clear pos minSpacing ts)"

definition isValidPlacement :: "Game \<Rightarrow> Position \<Rightarrow> bool" where
  "isValidPlacement g pos =
     (if TowerCount (world g) \<ge> MaxTowers (Placement (config g)) then False
      else if \<not> path_clear pos (MinDistanceFromPath (Placement (config g))) (path g) then False
      else towers_clear pos (MinTowerSpacing (Placement (config g))) (GetTowers (world g)))"

text \<open>
  \<open>AddTower\<close> returns the error (\<open>None\<close> for nil) and the game as the call leaves it.
  \<open>uid\<close> and \<open>now\<close> are what \<open>uuid.New()\<close> and \<open>time.Now()\<close> return in \<open>CreateTower\<close>.
\<close>

definition AddTower ::
  "(nat \<Rightarrow> string) \<Rightarrow> time \<Rightarrow> Game \<Rightarrow> string \<Rightarrow> real \<Rightarrow> real \<Rightarrow> error option \<times> Game" where
  "AddTower gen now g towerType x y =
     (case GetTowerConfig (config g) towerType of
        Inl err \<Rightarrow> (Some err, g)
      | Inr towerCfg \<Rightarrow>
          if Gold (state g) < Cost towerCfg then (Some ErrNotEnoughGold, g)
          else
            (let pos = \<lparr>X = x, Y = y\<rparr>
             in if \<not> isValidPlacement g pos then (Some ErrInvalidPlacement, g)
                else
                  (case CreateTower (config g) (gen (uuidPos g)) now towerType pos of
                     Inl err \<Rightarrow> (Some err, g)
                   | Inr tower \<Rightarrow>
                       (None,
                        g\<lparr>world := AddEntity (world g) (TowerE tower),
                          state := (state g)\<lparr>Gold := Gold (state g) - Cost towerCfg\<rparr>,
                          uuidPos := Suc (uuidPos g)\<rparr>))))"

definition convertTower :: "TowerEntity \<Rightarrow> TowerDTO" where
  "convertTower t =
     \<lparr>TowerDTO.ID = ID t, Type = TowerType t,
      Position = \<lparr>X = X (Position t), Y = Y (Position t)\<rparr>,
      Range = TowerEntity.Range t, Damage = TowerEntity.Damage t,
      FireRate = TowerEntity.FireRate t, SplashRadius = TowerEntity.SplashRadius t\<rparr>"

definition convertEnemy :: "EnemyEntity \<Rightarrow> EnemyDTO" where
  "convertEnemy e =
     \<lparr>EnemyDTO.ID = ID e, Type = EnemyType e,
      Position = \<lparr>X = X (Position e), Y = Y (Position e)\<rparr>,
      HP = EnemyEntity.HP e, MaxHP = EnemyEntity.MaxHP e,
      Speed = EnemyEntity.Speed e, PathIndex = EnemyEntity.PathIndex e\<rparr>"

definition convertProjectile :: "ProjectileEntity \<Rightarrow> ProjectileDTO" where
  "convertProjectile p =
     \<lparr>ProjectileDTO.ID = ID p, Type = ProjectileType p,
      Position = \<lparr>X = X (Position p), Y = Y (Position p)\<rparr>,
      Target = ProjectileEntity.Target p, Speed = ProjectileEntity.Speed p,
      Damage = ProjectileEntity.Damage p, SplashRadius = ProjectileEntity.SplashRadius p\<rparr>"

definition convertTowers :: "Game \<Rightarrow> TowerDTO list" where
  "convertTowers g = map convertTower (GetTowers (world g))"

definition convertEnemies :: "Game \<Rightarrow> EnemyDTO list" where
  "convertEnemies g = map convertEnemy (GetEnemies (world g))"

definition convertProjectiles :: "Game \<Rightarrow> ProjectileDTO list" where
  "convertProjectiles g = map convertProjectile (GetProjectiles (world g))"

definition GetState :: "Game \<Rightarrow> GameStateSnapshot" where
  "GetState g =
     \<lparr>Towers = convertTowers g, Enemies = convertEnemies g, Projectiles = convertProjectiles g,
      Wave = Wave (state g), Gold = Gold (state g), Lives = Lives (state g),
      Score = Score (state g), GameOver = GameOver (state g),
      Path = [], MapWidth = 0, MapHeight = 0\<rparr>"


text \<open>
  \<open>json.Marshal\<close> and \<open>json.Unmarshal\<close> belong to the Go library; they are the
  arguments \<open>marshal\<close> and \<open>unmarshal\<close> over a type \<open>'b\<close> of byte strings.
\<close>

definition SaveState :: "(GameStateSnapshot \<Rightarrow> 'b) \<Rightarrow> Game \<Rightarrow> 'b" where
  "SaveState marshal g = marshal (GetState g)"

definition restoreTower :: "time \<Rightarrow> TowerDTO \<Rightarrow> TowerEntity" where
  "restoreTower now towerDTO =
     \<lparr>ID = TowerDTO.ID towerDTO, Type = EntityTypeTower,
      Position = \<lparr>X = X (TowerDTO.Position towerDTO), Y = Y (TowerDTO.Position towerDTO)\<rparr>,
      Alive = True,
      TowerType = TowerDTO.Type towerDTO,
      Range = TowerDTO.Range towerDTO,
      Damage = TowerDTO.Damage towerDTO,
      FireRate = TowerDTO.FireRate towerDTO,
      SplashRadius = TowerDTO.SplashRadius towerDTO,
      LastShot = now\<rparr>"

text \<open>The rewards are not set by the restore and keep the zero value of \<open>int\<close>.\<close>

definition restoreEnemy :: "EnemyDTO \<Rightarrow> EnemyEntity" where
  "restoreEnemy enemyDTO =
     \<lparr>ID = EnemyDTO.ID enemyDTO, Type = EntityTypeEnemy,
      Position = \<lparr>X = X (EnemyDTO.Position enemyDTO), Y = Y (EnemyDTO.Position enemyDTO)\<rparr>,
      Alive = True,
      EnemyType = EnemyDTO.Type enemyDTO,
      HP = EnemyDTO.HP enemyDTO,
      MaxHP = EnemyDTO.MaxHP enemyDTO,
      Speed = EnemyDTO.Speed enemyDTO,
      PathIndex = EnemyDTO.PathIndex enemyDTO,
      GoldReward = 0,
      ScoreReward = 0\<rparr>"

definition restoreProjectile :: "ProjectileDTO \<Rightarrow> ProjectileEntity" where
  "restoreProjectile projDTO =
     \<lparr>ID = ProjectileDTO.ID projDTO, Type = EntityTypeProjectile,
      Position = \<lparr>X = X (ProjectileDTO.Position projDTO), Y = Y (ProjectileDTO.Position projDTO)\<rparr>,
      Alive = True,
      ProjectileType = ProjectileDTO.Type projDTO,
      Target = ProjectileDTO.Target projDTO,
      Speed = ProjectileDTO.Speed projDTO,
      Damage = ProjectileDTO.Damage projDTO,
      SplashRadius = ProjectileDTO.SplashRadius projDTO\<rparr>"

text \<open>
  \<open>now\<close> is the clock reading of the tower restores (one reading for the loop).
\<close>

definition LoadFromState ::
  "('b \<Rightarrow> GameStateSnapshot option) \<Rightarrow> time \<Rightarrow> Game \<Rightarrow> 'b \<Rightarrow> error option \<times> Game" where
  "LoadFromState unmarshal now g data =
     (case unmarshal data of
        None \<Rightarrow> (Some DecodeError, g)
      | Some snapshot \<Rightarrow>
          (let w0 = Clear (world g);
               st = (state g)\<lparr>Wave := GameStateSnapshot.Wave snapshot,
                               Gold := GameStateSnapshot.Gold snapshot,
                               Lives := GameStateSnapshot.Lives snapshot,
                               Score := GameStateSnapshot.Score snapshot,
                               GameOver := GameStateSnapshot.GameOver snapshot\<rparr>;
               w1 = fold (\<lambda>towerDTO w. AddEntity w (TowerE (restoreTower now towerDTO)))
                      (Towers snapshot) w0;
               w2 = fold (\<lambda>enemyDTO w. AddEntity w (EnemyE (restoreEnemy enemyDTO)))
                      (Enemies snapshot) w1;
               w3 = fold (\<lambda>projDTO w. AddEntity w (ProjectileE (restoreProjectile projDTO)))
                      (Projectiles snapshot) w2
           in (None,
               g\<lparr>world := w3, state := st,
                 waveSystem := (waveSystem g)\<lparr>currentWave := GameStateSnapshot.Wave snapshot\<rparr>\<rparr>)))"

section \<open>Invariants of the entity store\<close>

text \<open>
  The keys of a per-kind map are distinct and every entity is stored under its own
  identifier: \<open>AddEntity\<close> is the only insertion and uses \<open>entity.GetID()\<close> as key.
\<close>

definition keys_ok :: "(string \<times> 'a BaseEntity_scheme) list \<Rightarrow> bool" where
  "keys_ok al \<longleftrightarrow> distinct (map fst al) \<and> (\<forall>p\<in>set al. ID (snd p) = fst p)"

definition world_inv :: "World \<Rightarrow> bool" where
  "world_inv w \<longleftrightarrow> keys_ok (towers w) \<and> keys_ok (enemies w) \<and> keys_ok (projectiles w)"

text \<open>A target identifier is dangling when no enemy is stored under it or that enemy is dead.\<close>

definition dangling :: "World \<Rightarrow> string \<Rightarrow> bool" where
  "dangling w targetID \<longleftrightarrow>
     (case GetEnemy w targetID of None \<Rightarrow> True | Some target \<Rightarrow> \<not> Alive target)"

definition logReward :: "int \<Rightarrow> int \<Rightarrow> (int \<times> int) list \<Rightarrow> (int \<times> int) list" where
  "logReward gold score calls = calls @ [(gold, score)]"

definition healthy :: "World \<Rightarrow> bool" where
  "healthy w \<longleftrightarrow> list_all (\<lambda>p. Alive (snd p) \<longrightarrow> 0 < EnemyEntity.HP (snd p)) (enemies w)"

text \<open>Distance from a tower to an enemy, as the combat loop computes it.\<close>

definition tower_dist :: "TowerEntity \<Rightarrow> EnemyEntity \<Rightarrow> real" where
  "tower_dist tower enemy =
     sqrt ((X (Position enemy) - X (Position tower)) * (X (Position enemy) - X (Position tower))
         + (Y (Position enemy) - Y (Position tower)) * (Y (Position enemy) - Y (Position tower)))"

text \<open>
  The target the specification asks for: among the alive enemies strictly within range,
  one at minimal distance, the first such in the order of iteration.
\<close>

definition nearest_in_range :: "TowerEntity \<Rightarrow> EnemyEntity list \<Rightarrow> EnemyEntity option" where
  "nearest_in_range tower es =
     (let cands = filter (\<lambda>e. Alive e \<and> tower_dist tower e < TowerEntity.Range tower) es
      in if cands = [] then None
         else find (\<lambda>e. tower_dist tower e = Min (tower_dist tower ` set cands)) cands)"

definition fired_projectile ::
  "string \<Rightarrow> TowerEntity \<Rightarrow> EnemyEntity \<Rightarrow> ProjectileConfig \<Rightarrow> ProjectileEntity" where
  "fired_projectile uid tower target pc =
     \<lparr>ID = uid, Type = EntityTypeProjectile, Position = Position tower, Alive = True,
      ProjectileType = projType_of tower, Target = ID target,
      Speed = ProjectileConfig.Speed pc,
      Damage = TowerEntity.Damage tower,
      SplashRadius = TowerEntity.SplashRadius tower\<rparr>"

definition fires :: "GameConfig \<Rightarrow> time \<Rightarrow> EnemyEntity list \<Rightarrow> TowerEntity \<Rightarrow> bool" where
  "fires c now es tower \<longleftrightarrow>
     Alive tower \<and> CanShoot tower now \<and> nearest_in_range tower es \<noteq> None
     \<and> GameConfig.Projectiles c (projType_of tower) \<noteq> None"

definition at_end :: "int \<Rightarrow> EnemyEntity \<Rightarrow> bool" where
  "at_end pl e \<longleftrightarrow> Alive e \<and> PathIndex e \<ge> pl - 1"

definition kill_at_end :: "int \<Rightarrow> string set \<Rightarrow> string \<times> EnemyEntity \<Rightarrow> string \<times> EnemyEntity" where
  "kill_at_end pl S q =
     (if fst q \<in> S \<and> at_end pl (snd q) then (fst q, (snd q)\<lparr>Alive := False\<rparr>) else q)"



text \<open>
  The projectiles that one combat stage spawns, in the order of the towers: one for each
  tower that fires, with the identifiers drawn in turn from position \<open>k\<close>.
\<close>

fun spawned ::
  "GameConfig \<Rightarrow> (nat \<Rightarrow> string) \<Rightarrow> time \<Rightarrow> EnemyEntity list \<Rightarrow> TowerEntity list \<Rightarrow> nat
     \<Rightarrow> ProjectileEntity list" where
  "spawned c gen now es [] k = []"
| "spawned c gen now es (tower # ts) k =
     (if Alive tower \<and> CanShoot tower now
      then (case nearest_in_range tower es of
              None \<Rightarrow> spawned c gen now es ts k
            | Some target \<Rightarrow>
                (case GameConfig.Projectiles c (projType_of tower) of
                   None \<Rightarrow> spawned c gen now es ts k
                 | Some pc \<Rightarrow>
                     fired_projectile (gen k) tower target pc # spawned c gen now es ts (Suc k)))
      else spawned c gen now es ts k)"


section \<open>Concrete instances\<close>

text \<open>A world with four enemies (the fourth dead) and two splash projectiles.\<close>

definition enemyS1 :: EnemyEntity where
  "enemyS1 =
     \<lparr>ID = ''e1'', Type = EntityTypeEnemy, Position = \<lparr>X = 10, Y = 0\<rparr>, Alive = True,
      EnemyType = ''basic'', HP = 50, MaxHP = 50, Speed = 1, PathIndex = 0,
      GoldReward = 10, ScoreReward = 10\<rparr>"

definition enemyS2 :: EnemyEntity where
  "enemyS2 = enemyS1\<lparr>ID := ''e2'', Position := \<lparr>X = 13, Y = 4\<rparr>\<rparr>"

definition enemyS3 :: EnemyEntity where
  "enemyS3 = enemyS1\<lparr>ID := ''e3'', Position := \<lparr>X = 100, Y = 0\<rparr>\<rparr>"

definition enemyS4 :: EnemyEntity where
  "enemyS4 = enemyS1\<lparr>ID := ''e4'', Position := \<lparr>X = 11, Y = 0\<rparr>, EnemyEntity.HP := 0, Alive := False\<rparr>"

definition projS1 :: ProjectileEntity where
  "projS1 =
     \<lparr>ID = ''p1'', Type = EntityTypeProjectile, Position = \<lparr>X = 10, Y = 0\<rparr>, Alive = True,
      ProjectileType = ''splash'', Target = ''e1'', Speed = 5, Damage = 20, SplashRadius = 30\<rparr>"

definition projS2 :: ProjectileEntity where
  "projS2 = projS1\<lparr>ID := ''p2'', Target := ''e4''\<rparr>"

definition worldS :: World where
  "worldS =
     \<lparr>entities = [(''e1'', EntityTypeEnemy), (''e2'', EntityTypeEnemy), (''e3'', EntityTypeEnemy),
                  (''e4'', EntityTypeEnemy), (''p1'', EntityTypeProjectile),
                  (''p2'', EntityTypeProjectile)],
      towers = [],
      enemies = [(''e1'', enemyS1), (''e2'', enemyS2), (''e3'', enemyS3), (''e4'', enemyS4)],
      projectiles = [(''p1'', projS1), (''p2'', projS2)]\<rparr>"

definition uuidA :: "nat \<Rightarrow> string" where
  "uuidA n = ''uuid-'' @ replicate n (CHR ''1'')"

definition randA :: "nat \<Rightarrow> nat" where
  "randA n = 0"

definition cfgA :: GameConfig where
  "cfgA =
     \<lparr>Game = \<lparr>StartingGold = 100, StartingLives = 20, TickRateMs = 50, BroadcastIntervalMs = 100\<rparr>,
      Towers = [''basic'' \<mapsto> \<lparr>Cost = 50, Range = 100, Damage = 10, FireRate = 1, SplashRadius = 0\<rparr>],
      Enemies = [''basic'' \<mapsto> \<lparr>EnemyConfig.HP = 50, Speed = 1, GoldReward = 10, ScoreReward = 10\<rparr>],
      Projectiles = [''basic'' \<mapsto> \<lparr>ProjectileConfig.Speed = 5\<rparr>],
      Waves = \<lparr>SpawnIntervalTicks = 20, EnemiesPerWaveBase = 5, EnemiesPerWaveMultiplier = 1,
               HPScalePerWave = 1,
               EarlyWaves = \<lparr>Basic = 2, Fast = 0, Tank = 0, Boss = 0\<rparr>,
               MidWaves = \<lparr>Basic = 2, Fast = 0, Tank = 0, Boss = 0\<rparr>,
               LateWaves = \<lparr>Basic = 2, Fast = 0, Tank = 0, Boss = 0\<rparr>,
               BossWaves = \<lparr>Basic = 2, Fast = 0, Tank = 0, Boss = 0\<rparr>\<rparr>,
      Map = \<lparr>Width = 800, Height = 500, Path = [\<lparr>X = 0, Y = 0\<rparr>, \<lparr>X = 100, Y = 0\<rparr>],
             PathHalfWidth = 20\<rparr>,
      Placement = \<lparr>MinDistanceFromPath = 30, MinTowerSpacing = 40, MaxTowers = 20\<rparr>\<rparr>"

definition enemyA :: EnemyEntity where
  "enemyA =
     \<lparr>ID = ''e1'', Type = EntityTypeEnemy, Position = \<lparr>X = 0, Y = 0\<rparr>, Alive = True,
      EnemyType = ''basic'', HP = 10, MaxHP = 50, Speed = 1, PathIndex = 0,
      GoldReward = 10, ScoreReward = 10\<rparr>"

definition projA :: ProjectileEntity where
  "projA =
     \<lparr>ID = ''p1'', Type = EntityTypeProjectile, Position = \<lparr>X = 0, Y = 0\<rparr>, Alive = True,
      ProjectileType = ''basic'', Target = ''e1'', Speed = 5, Damage = 20, SplashRadius = 0\<rparr>"

definition worldA :: World where
  "worldA = AddEntity (AddEntity NewWorld (EnemyE enemyA)) (ProjectileE projA)"

definition gameA :: Game where
  "gameA = (NewGame ''g'' cfgA 0)\<lparr>world := worldA\<rparr>"

definition waveA0 :: WaveSystem where
  "waveA0 = NewWaveSystem \<lparr>X = 0, Y = 0\<rparr> 0"

definition basicA :: "string \<Rightarrow> EnemyEntity" where
  "basicA uid =
     \<lparr>ID = uid, Type = EntityTypeEnemy, Position = \<lparr>X = 0, Y = 0\<rparr>, Alive = True,
      EnemyType = ''basic'', HP = 50, MaxHP = 50, Speed = 1, PathIndex = 0,
      GoldReward = 10, ScoreReward = 10\<rparr>"

definition waveA1 :: WaveSystem where
  "waveA1 =
     \<lparr>startPos = \<lparr>X = 0, Y = 0\<rparr>, currentWave = 1, remainingInWave = 2,
      nextEnemySpawn = 11120 * Millisecond, lastWaveTime = 11 * Second,
      waveInterval = 10 * Second, rngPos = 1\<rparr>"

definition waveA2 :: WaveSystem where
  "waveA2 =
     \<lparr>startPos = \<lparr>X = 0, Y = 0\<rparr>, currentWave = 1, remainingInWave = 1,
      nextEnemySpawn = 12120 * Millisecond, lastWaveTime = 11 * Second,
      waveInterval = 10 * Second, rngPos = 3\<rparr>"

definition waveA3 :: WaveSystem where
  "waveA3 =
     \<lparr>startPos = \<lparr>X = 0, Y = 0\<rparr>, currentWave = 1, remainingInWave = 0,
      nextEnemySpawn = 13120 * Millisecond, lastWaveTime = 11 * Second,
      waveInterval = 10 * Second, rngPos = 5\<rparr>"

definition worldA1 :: World where
  "worldA1 = AddEntity NewWorld (EnemyE (basicA ''uuid-''))"

definition worldA2 :: World where
  "worldA2 = AddEntity worldA1 (EnemyE (basicA ''uuid-11''))"

definition worldA3 :: World where
  "worldA3 = AddEntity worldA2 (EnemyE (basicA ''uuid-111''))"

definition gameP :: Game where
  "gameP = NewGame ''g'' cfgA 0"

definition towerP :: "string \<Rightarrow> Position \<Rightarrow> TowerEntity" where
  "towerP uid pos =
     \<lparr>ID = uid, Type = EntityTypeTower, Position = pos, Alive = True,
      TowerType = ''basic'', Range = 100, Damage = 10, FireRate = 1, SplashRadius = 0,
      LastShot = - Hour\<rparr>"

definition gameR :: Game where
  "gameR = gameA\<lparr>world := AddEntity worldA (TowerE (towerP ''t1'' \<lparr>X = 50, Y = 100\<rparr>))\<rparr>"

definition gameP1 :: Game where
  "gameP1 = snd (AddTower uuidA 0 gameP ''basic'' 50 100)"

definition gameP2 :: Game where
  "gameP2 = snd (AddTower uuidA 0 gameP1 ''basic'' 150 100)"



definition cfgNoProj :: GameConfig where
  "cfgNoProj = cfgA\<lparr>GameConfig.Projectiles := Map.empty\<rparr>"

definition enemyC :: "string \<Rightarrow> Position \<Rightarrow> bool \<Rightarrow> EnemyEntity" where
  "enemyC uid pos alive = (basicA uid)\<lparr>Position := pos, Alive := alive\<rparr>"

definition enemiesC :: "EnemyEntity list" where
  "enemiesC =
     [enemyC ''e1'' \<lparr>X = 60, Y = 0\<rparr> True, enemyC ''e2'' \<lparr>X = 30, Y = 40\<rparr> True,
      enemyC ''e3'' \<lparr>X = 50, Y = 0\<rparr> True, enemyC ''e4'' \<lparr>X = 1, Y = 0\<rparr> False,
      enemyC ''e5'' \<lparr>X = 200, Y = 0\<rparr> True]"

definition worldC :: World where
  "worldC =
     \<lparr>entities = [(''t1'', EntityTypeTower), (''e1'', EntityTypeEnemy), (''e2'', EntityTypeEnemy),
                  (''e3'', EntityTypeEnemy), (''e4'', EntityTypeEnemy), (''e5'', EntityTypeEnemy)],
      towers = [(''t1'', towerP ''t1'' \<lparr>X = 0, Y = 0\<rparr>)],
      enemies = map (\<lambda>e. (ID e, e)) enemiesC,
      projectiles = []\<rparr>"





section \<open>Projectile resolution: properties\<close>

lemma keys_ok_map_of: "keys_ok al \<Longrightarrow> map_of al k = Some e \<Longrightarrow> ID e = k"
  by (auto simp: keys_ok_def dest: map_of_SomeD)

lemma map_of_map_snd: "map_of (map (\<lambda>p. (fst p, f (snd p))) al) k = map_option f (map_of al k)"
  by (induction al) auto

lemma ID_TakeDamage [simp]: "ID (TakeDamage e d) = ID e"
  by (simp add: TakeDamage_def Let_def)

lemma Position_TakeDamage [simp]: "Position (TakeDamage e d) = Position e"
  by (simp add: TakeDamage_def Let_def)

lemma splash_hit_primary: "ID e = i \<Longrightarrow> splash_hit pos r d i e = e"
  by (simp add: splash_hit_def)

lemma enemies_projectile_step_hit:
  assumes "map_of (projectiles w) i = Some proj" "Alive proj"
    and "map_of (enemies w) (Target proj) = Some target" "Alive target"
    and "sqrt ((X (Position target) - X (Position proj)) * (X (Position target) - X (Position proj))
             + (Y (Position target) - Y (Position proj)) * (Y (Position target) - Y (Position proj)))
          \<le> ProjectileEntity.Speed proj * dt * 60"
  shows "enemies (projectile_step dt i w) =
           (if ProjectileEntity.SplashRadius proj > 0
            then map (\<lambda>p. (fst p, splash_hit (Position target) (ProjectileEntity.SplashRadius proj)
                       (if ProjectileEntity.Damage proj sdiv 2 < 1 then 1 else ProjectileEntity.Damage proj sdiv 2)
                       (ID target) (snd p)))
                   (AList.map_entry (Target proj) (\<lambda>e. TakeDamage e (ProjectileEntity.Damage proj)) (enemies w))
            else AList.map_entry (Target proj) (\<lambda>e. TakeDamage e (ProjectileEntity.Damage proj)) (enemies w))"
  using assms
  by (simp add: projectile_step_def GetEnemy_def Let_def update_enemy_def update_projectile_def
      applySplashDamage_def)

lemma keys_ok_worldS: "keys_ok (enemies worldS)" "keys_ok (projectiles worldS)"
  by (simp_all add: keys_ok_def worldS_def enemyS1_def enemyS2_def enemyS3_def enemyS4_def
      projS1_def projS2_def)

text \<open>
  Claim C7. A projectile with splash radius 30 and damage 20 that reaches its target: the
  target takes \<open>TakeDamage 20\<close>; every other enemy that is alive and at most 30 units
  from the target's position takes \<open>TakeDamage 10\<close>; every other entry of the enemy map
  (farther away, dead) is unchanged, and no entry is added or removed.
\<close>

theorem splash_damage_30_20:
  assumes inv: "keys_ok (enemies w)"
    and proj: "map_of (projectiles w) i = Some proj" "Alive proj"
    and stats: "ProjectileEntity.SplashRadius proj = 30" "ProjectileEntity.Damage proj = 20"
    and tgt: "map_of (enemies w) (Target proj) = Some target" "Alive target"
    and reach:
      "sqrt ((X (Position target) - X (Position proj)) * (X (Position target) - X (Position proj))
             + (Y (Position target) - Y (Position proj)) * (Y (Position target) - Y (Position proj)))
          \<le> ProjectileEntity.Speed proj * dt * 60"
  shows "map_of (enemies (projectile_step dt i w)) j =
           (case map_of (enemies w) j of
              None \<Rightarrow> None
            | Some e \<Rightarrow>
                if j = Target proj then Some (TakeDamage e 20)
                else if Alive e \<and>
                        sqrt ((X (Position e) - X (Position target)) * (X (Position e) - X (Position target))
                            + (Y (Position e) - Y (Position target)) * (Y (Position e) - Y (Position target)))
                          \<le> 30
                     then Some (TakeDamage e 10)
                     else Some e)"
proof -
  have idt: "ID target = Target proj"
    using inv tgt(1) by (rule keys_ok_map_of)
  have en: "map_of (enemies (projectile_step dt i w)) j =
      map_option (splash_hit (Position target) 30 10 (Target proj))
        (map_of (AList.map_entry (Target proj) (\<lambda>e. TakeDamage e 20) (enemies w)) j)"
    using enemies_projectile_step_hit [OF proj tgt reach] stats idt
    by (simp add: map_of_map_snd)
  show ?thesis
  proof (cases "map_of (enemies w) j")
    case None
    then show ?thesis
      using tgt(1) by (auto simp: en map_of_map_entry)
  next
    case (Some e)
    have ide: "ID e = j"
      using inv Some by (rule keys_ok_map_of)
    show ?thesis
    proof (cases "j = Target proj")
      case True
      then show ?thesis
        unfolding en using Some ide by (simp add: map_of_map_entry splash_hit_primary)
    next
      case False
      then show ?thesis
        unfolding en using Some ide by (simp add: map_of_map_entry splash_hit_def Let_def)
    qed
  qed
qed

theorem splash_damage_30_20_witness:
  "map_of (enemies (projectile_step 0.05 ''p1'' worldS)) ''e1'' = Some (TakeDamage enemyS1 20)
   \<and> map_of (enemies (projectile_step 0.05 ''p1'' worldS)) ''e2'' = Some (TakeDamage enemyS2 10)
   \<and> map_of (enemies (projectile_step 0.05 ''p1'' worldS)) ''e3'' = Some enemyS3
   \<and> map_of (enemies (projectile_step 0.05 ''p1'' worldS)) ''e4'' = Some enemyS4
   \<and> EnemyEntity.HP (TakeDamage enemyS1 20) = 30 \<and> EnemyEntity.HP (TakeDamage enemyS2 10) = 40"
proof -
  have p: "map_of (projectiles worldS) ''p1'' = Some projS1" "Alive projS1"
    "ProjectileEntity.SplashRadius projS1 = 30" "ProjectileEntity.Damage projS1 = 20"
    by (simp_all add: worldS_def projS1_def)
  have t: "map_of (enemies worldS) (Target projS1) = Some enemyS1" "Alive enemyS1"
    by (simp_all add: worldS_def projS1_def enemyS1_def)
  have r: "sqrt ((X (Position enemyS1) - X (Position projS1)) * (X (Position enemyS1) - X (Position projS1))
             + (Y (Position enemyS1) - Y (Position projS1)) * (Y (Position enemyS1) - Y (Position projS1)))
          \<le> ProjectileEntity.Speed projS1 * 0.05 * 60"
    by (simp add: projS1_def enemyS1_def)
  note th = splash_damage_30_20 [OF keys_ok_worldS(1) p t r]
  have s25: "sqrt 25 = 5" by simp
  show ?thesis
    using th [of "''e1''"] th [of "''e2''"] th [of "''e3''"] th [of "''e4''"]
    by (simp add: worldS_def projS1_def enemyS1_def enemyS2_def enemyS3_def enemyS4_def
        TakeDamage_def Let_def)
qed

lemma Alive_TakeDamage: "Alive (TakeDamage e d) \<Longrightarrow> Alive e"
  by (simp add: TakeDamage_def Let_def split: if_splits)

lemma Alive_splash_hit: "Alive (splash_hit pos r d i e) \<Longrightarrow> Alive e"
  by (auto simp: splash_hit_def Let_def split: if_splits dest: Alive_TakeDamage)

lemma projectile_step_dangling:
  assumes "map_of (projectiles w) i = Some proj" "Alive proj" "dangling w (Target proj)"
  shows "projectile_step dt i w = update_projectile i (\<lambda>p. p\<lparr>Alive := False\<rparr>) w"
  using assms by (simp add: projectile_step_def dangling_def split: option.splits)

lemma projectile_step_dead:
  assumes "map_of (projectiles w) i = Some proj" "\<not> Alive proj"
  shows "projectile_step dt i w = w"
  using assms by (simp add: projectile_step_def)

lemma projectiles_applySplashDamage [simp]:
  "projectiles (applySplashDamage w pos r d i) = projectiles w"
  by (simp add: applySplashDamage_def Let_def)

lemma projectile_step_other:
  assumes "j \<noteq> i"
  shows "map_of (projectiles (projectile_step dt j w)) i = map_of (projectiles w) i"
  using assms
  by (simp add: projectile_step_def Let_def update_projectile_def update_enemy_def
      map_of_map_entry split: option.splits)

lemma enemies_update_projectile [simp]: "enemies (update_projectile i f w) = enemies w"
  by (simp add: update_projectile_def)

lemma map_of_enemies_update_enemy:
  "map_of (enemies (update_enemy a g w)) k =
     map_option (\<lambda>e. if k = a then g e else e) (map_of (enemies w) k)"
  by (cases "map_of (enemies w) k") (auto simp: update_enemy_def map_of_map_entry)

lemma map_of_enemies_applySplashDamage:
  "map_of (enemies (applySplashDamage w pos r d i)) k =
     map_option (splash_hit pos r (if d sdiv 2 < 1 then 1 else d sdiv 2) i) (map_of (enemies w) k)"
  by (simp add: applySplashDamage_def Let_def map_of_map_snd)

lemma projectile_step_enemy:
  assumes "map_of (enemies (projectile_step dt j w)) k = Some e'"
  shows "\<exists>e. map_of (enemies w) k = Some e \<and> (Alive e' \<longrightarrow> Alive e)"
  using assms
  by (auto simp: projectile_step_def Let_def map_of_enemies_update_enemy GetEnemy_def
      map_of_enemies_applySplashDamage
      split: option.splits if_splits dest: Alive_TakeDamage Alive_splash_hit)

lemma projectile_step_enemy_None:
  assumes "map_of (enemies w) k = None"
  shows "map_of (enemies (projectile_step dt j w)) k = None"
  using assms
  by (auto simp: projectile_step_def Let_def map_of_enemies_update_enemy GetEnemy_def
      map_of_enemies_applySplashDamage split: option.splits if_splits)

lemma dangling_projectile_step:
  assumes "dangling w k"
  shows "dangling (projectile_step dt j w) k"
proof (cases "map_of (enemies (projectile_step dt j w)) k")
  case None
  then show ?thesis by (simp add: dangling_def GetEnemy_def)
next
  case (Some e')
  from projectile_step_enemy [OF Some] assms show ?thesis
    using Some by (auto simp: dangling_def GetEnemy_def)
qed

lemma Target_projectile_step:
  assumes "map_of (projectiles w) i = Some proj"
  shows "\<exists>proj'. map_of (projectiles (projectile_step dt j w)) i = Some proj'
           \<and> Target proj' = Target proj \<and> (Alive proj' \<longrightarrow> Alive proj)"
  using assms
  by (auto simp: projectile_step_def Let_def update_projectile_def update_enemy_def
      map_of_map_entry split: option.splits)

lemma fold_projectile_step_dead:
  assumes "map_of (projectiles w) i = Some proj" "\<not> Alive proj"
  shows "map_of (projectiles (fold (projectile_step dt) ids w)) i = Some proj"
  using assms
proof (induction ids arbitrary: w)
  case Nil
  then show ?case by simp
next
  case (Cons j ids)
  have "map_of (projectiles (projectile_step dt j w)) i = Some proj"
  proof (cases "j = i")
    case True
    then show ?thesis using Cons.prems by (simp add: projectile_step_dead)
  next
    case False
    then show ?thesis using Cons.prems by (simp add: projectile_step_other)
  qed
  then show ?case using Cons.IH Cons.prems(2) by simp
qed

lemma fold_projectile_step_dangling:
  assumes "map_of (projectiles w) i = Some proj" "Alive proj" "dangling w (Target proj)"
    and "i \<in> set ids"
  shows "map_of (projectiles (fold (projectile_step dt) ids w)) i = Some (proj\<lparr>Alive := False\<rparr>)"
  using assms
proof (induction ids arbitrary: w)
  case Nil
  then show ?case by simp
next
  case (Cons j ids)
  show ?case
  proof (cases "j = i")
    case True
    have "projectile_step dt i w = update_projectile i (\<lambda>p. p\<lparr>Alive := False\<rparr>) w"
      using Cons.prems(1-3) by (rule projectile_step_dangling)
    then have "map_of (projectiles (projectile_step dt j w)) i = Some (proj\<lparr>Alive := False\<rparr>)"
      using True Cons.prems(1) by (simp add: update_projectile_def map_of_map_entry)
    then have "map_of (projectiles (fold (projectile_step dt) ids (projectile_step dt j w))) i
                 = Some (proj\<lparr>Alive := False\<rparr>)"
      by (rule fold_projectile_step_dead) simp
    then show ?thesis by simp
  next
    case False
    then have "map_of (projectiles (projectile_step dt j w)) i = Some proj"
      using Cons.prems(1) by (simp add: projectile_step_other)
    moreover have "dangling (projectile_step dt j w) (Target proj)"
      using Cons.prems(3) by (rule dangling_projectile_step)
    moreover have "i \<in> set ids"
      using False Cons.prems(4) by simp
    ultimately show ?thesis
      using Cons.IH Cons.prems(2) by simp
  qed
qed

text \<open>
  Claim C9. An alive projectile whose target identifier resolves to no enemy, or to a dead
  enemy, is marked dead by its evaluation, which leaves every enemy as it was; and it is
  dead after the projectile stage of the tick, whatever the other projectiles did.
\<close>

theorem dangling_projectile_retired:
  assumes inv: "keys_ok (projectiles w)"
    and proj: "map_of (projectiles w) i = Some proj" "Alive proj"
    and dang: "dangling w (Target proj)"
  shows "map_of (projectiles (projectile_step dt i w)) i = Some (proj\<lparr>Alive := False\<rparr>)
       \<and> enemies (projectile_step dt i w) = enemies w
       \<and> map_of (projectiles (ProjectileSystem_Update w dt)) i = Some (proj\<lparr>Alive := False\<rparr>)"
proof -
  have step: "projectile_step dt i w = update_projectile i (\<lambda>p. p\<lparr>Alive := False\<rparr>) w"
    using proj dang by (rule projectile_step_dangling)
  have "ID proj = i"
    using inv proj(1) by (rule keys_ok_map_of)
  moreover have "proj \<in> set (GetProjectiles w)"
    using proj by (auto simp: GetProjectiles_def dest: map_of_SomeD intro: rev_image_eqI)
  ultimately have "i \<in> set (map ID (GetProjectiles w))"
    by auto
  with proj dang
  have "map_of (projectiles (fold (projectile_step dt) (map ID (GetProjectiles w)) w)) i
          = Some (proj\<lparr>Alive := False\<rparr>)"
    by (rule fold_projectile_step_dangling)
  then show ?thesis
    using step proj(1) by (simp add: ProjectileSystem_Update_def update_projectile_def map_of_map_entry)
qed

theorem dangling_projectile_retired_witness:
  "map_of (projectiles (projectile_step 0.05 ''p2'' worldS)) ''p2'' = Some (projS2\<lparr>Alive := False\<rparr>)
   \<and> enemies (projectile_step 0.05 ''p2'' worldS) = enemies worldS
   \<and> map_of (projectiles (ProjectileSystem_Update worldS 0.05)) ''p2'' = Some (projS2\<lparr>Alive := False\<rparr>)"
proof -
  have p: "map_of (projectiles worldS) ''p2'' = Some projS2" "Alive projS2"
    by (simp_all add: worldS_def projS2_def projS1_def)
  have d: "dangling worldS (Target projS2)"
    by (simp add: dangling_def GetEnemy_def worldS_def projS2_def projS1_def enemyS4_def enemyS1_def)
  show ?thesis
    using dangling_projectile_retired [OF keys_ok_worldS(2) p d] by simp
qed

section \<open>Further properties\<close>

lemma drip_loop_stop:
  "\<not> (remainingInWave (fst acc) > 0 \<and> now > nextEnemySpawn (fst acc))
   \<Longrightarrow> drip_loop c gen rand now acc = Some acc"
  by (subst drip_loop.simps) auto

lemma nextSpawnDelay_positive: "0 < fst (nextSpawnDelay rand s)"
  by (simp add: nextSpawnDelay_def Let_def Millisecond_def)

lemma drip_loop_once:
  assumes "remainingInWave (fst acc) > 0" "now > nextEnemySpawn (fst acc)"
    and "spawnNextEnemy c gen rand acc = Some acc1"
  shows "drip_loop c gen rand now acc =
           Some ((snd (nextSpawnDelay rand (fst acc1)))
                   \<lparr>nextEnemySpawn := now + fst (nextSpawnDelay rand (fst acc1))\<rparr>, snd acc1)"
proof -
  have "drip_loop c gen rand now acc =
          drip_loop c gen rand now
            ((snd (nextSpawnDelay rand (fst acc1)))
                   \<lparr>nextEnemySpawn := now + fst (nextSpawnDelay rand (fst acc1))\<rparr>, snd acc1)"
    using assms by (subst drip_loop.simps) (simp add: Let_def)
  also have "\<dots> = Some ((snd (nextSpawnDelay rand (fst acc1)))
                   \<lparr>nextEnemySpawn := now + fst (nextSpawnDelay rand (fst acc1))\<rparr>, snd acc1)"
    using nextSpawnDelay_positive [of rand "fst acc1"] by (intro drip_loop_stop) simp
  finally show ?thesis .
qed

lemma worldA_simp: "worldA = \<lparr>entities = [(''e1'', EntityTypeEnemy), (''p1'', EntityTypeProjectile)],
   towers = [], enemies = [(''e1'', enemyA)], projectiles = [(''p1'', projA)]\<rparr>"
  by (simp add: worldA_def NewWorld_def enemyA_def projA_def)

lemma projectile_kill_A: "ProjectileSystem_Update worldA (1 / 20) =
   \<lparr>entities = [(''e1'', EntityTypeEnemy), (''p1'', EntityTypeProjectile)],
    towers = [],
    enemies = [(''e1'', enemyA\<lparr>EnemyEntity.HP := 0, Alive := False\<rparr>)],
    projectiles = [(''p1'', projA\<lparr>Alive := False\<rparr>)]\<rparr>"
  by (simp add: worldA_simp ProjectileSystem_Update_def GetProjectiles_def projectile_step_def GetEnemy_def
      update_enemy_def update_projectile_def TakeDamage_def Let_def enemyA_def projA_def)

lemma gameA_wave: "WaveSystem_Update cfgA uuidA randA (50 * Millisecond) (50 * Millisecond)
    (waveSystem gameA, worldA, 0) = Some (waveSystem gameA, worldA, 0)"
proof -
  have c: "\<not> (remainingInWave (waveSystem gameA) = 0
             \<and> 50 * Millisecond - lastWaveTime (waveSystem gameA) > waveInterval (waveSystem gameA))"
    by (simp add: gameA_def NewGame_def NewWaveSystem_def Millisecond_def Second_def)
  have d: "drip_loop cfgA uuidA randA (50 * Millisecond) (waveSystem gameA, worldA, 0)
             = Some (waveSystem gameA, worldA, 0)"
    by (rule drip_loop_stop) (simp add: gameA_def NewGame_def NewWaveSystem_def)
  show ?thesis
    unfolding WaveSystem_Update_def using c d by (auto simp: Let_def)
qed

lemma gameA_move: "MovementSystem_Update (path gameA) worldA (1 / 20) =
   Some (worldA\<lparr>enemies := [(''e1'', enemyA\<lparr>Position := \<lparr>X = 3, Y = 0\<rparr>\<rparr>)]\<rparr>)"
  by (simp add: MovementSystem_Update_def GetEnemies_def movement_step_def worldA_simp gameA_def
      NewGame_def cfgA_def enemyA_def update_enemy_def Let_def)

lemma gameA_combat: "CombatSystem_Update cfgA uuidA (50 * Millisecond)
     (worldA\<lparr>enemies := [(''e1'', enemyA\<lparr>Position := \<lparr>X = 3, Y = 0\<rparr>\<rparr>)]\<rparr>, 0)
   = (worldA\<lparr>enemies := [(''e1'', enemyA\<lparr>Position := \<lparr>X = 3, Y = 0\<rparr>\<rparr>)]\<rparr>, 0)"
  by (simp add: CombatSystem_Update_def GetTowers_def worldA_simp)

lemma gameA_projectile: "ProjectileSystem_Update
     (worldA\<lparr>enemies := [(''e1'', enemyA\<lparr>Position := \<lparr>X = 3, Y = 0\<rparr>\<rparr>)]\<rparr>) (1 / 20) =
   \<lparr>entities = [(''e1'', EntityTypeEnemy), (''p1'', EntityTypeProjectile)],
    towers = [],
    enemies = [(''e1'', enemyA\<lparr>Position := \<lparr>X = 3, Y = 0\<rparr>, EnemyEntity.HP := 0, Alive := False\<rparr>)],
    projectiles = [(''p1'', projA\<lparr>Alive := False\<rparr>)]\<rparr>"
  by (simp add: worldA_simp ProjectileSystem_Update_def GetProjectiles_def projectile_step_def GetEnemy_def
      update_enemy_def update_projectile_def TakeDamage_def Let_def enemyA_def projA_def)

lemma gameA_reward: "RewardSystem_Update (Some f)
    \<lparr>entities = [(''e1'', EntityTypeEnemy), (''p1'', EntityTypeProjectile)],
    towers = [],
    enemies = [(''e1'', enemyA\<lparr>Position := \<lparr>X = 3, Y = 0\<rparr>, EnemyEntity.HP := 0, Alive := False\<rparr>)],
    projectiles = [(''p1'', projA\<lparr>Alive := False\<rparr>)]\<rparr> st
   = (\<lparr>entities = [(''e1'', EntityTypeEnemy), (''p1'', EntityTypeProjectile)],
    towers = [],
    enemies = [(''e1'', enemyA\<lparr>Position := \<lparr>X = 3, Y = 0\<rparr>, EnemyEntity.HP := 0, Alive := False\<rparr>)],
    projectiles = [(''p1'', projA\<lparr>Alive := False\<rparr>)]\<rparr>, st)"
  by (simp add: RewardSystem_Update_def GetEnemies_def)

lemma gameA_lifecycle: "LifecycleSystem_Update n (Some f)
    \<lparr>entities = [(''e1'', EntityTypeEnemy), (''p1'', EntityTypeProjectile)],
    towers = [],
    enemies = [(''e1'', enemyA\<lparr>Position := \<lparr>X = 3, Y = 0\<rparr>, EnemyEntity.HP := 0, Alive := False\<rparr>)],
    projectiles = [(''p1'', projA\<lparr>Alive := False\<rparr>)]\<rparr> st
   = (NewWorld, st)"
  by (simp add: LifecycleSystem_Update_def GetEnemies_def CleanupDeadEntities_def cleanup_step_def
      IsAlive_stored_def delete_typed_def NewWorld_def)

lemma gameA_fields: "state gameA = \<lparr>Wave = 0, Gold = 100, Lives = 20, Score = 0, GameOver = False\<rparr>"
  "world gameA = worldA" "uuidPos gameA = 0" "config gameA = cfgA" "lastUpdate gameA = 0"
  "currentWave (waveSystem gameA) = 0"
  by (simp_all add: gameA_def NewGame_def cfgA_def NewWaveSystem_def)

lemma dtA: "Seconds (50 * Millisecond) = 1 / 20"
  by (simp add: Seconds_def Millisecond_def)

text \<open>
  Claim C1. The claim asks for one reward callback, in the same tick, for an enemy whose
  hp drops to 0 in the projectile stage. Here an enemy with hp 10 and gold reward 10 is
  hit by a projectile of damage 20: \<open>TakeDamage\<close> sets hp to 0 and clears the alive flag at
  once, the reward stage then iterates over the alive enemies only and calls the callback
  zero times; the tick leaves gold and score as they were and cleanup removes the enemy.
\<close>

theorem kill_grants_no_reward:
  "EnemyEntity.HP enemyA = 10 \<and> Alive enemyA \<and> EnemyEntity.GoldReward enemyA = 10
   \<and> map_of (enemies (ProjectileSystem_Update worldA (1 / 20))) ''e1''
       = Some (enemyA\<lparr>EnemyEntity.HP := 0, Alive := False\<rparr>)
   \<and> snd (RewardSystem_Update (Some logReward) (ProjectileSystem_Update worldA (1 / 20)) []) = []
   \<and> map_option (\<lambda>g. (Gold (state g), Score (state g), world g))
        (Game_Update uuidA randA (50 * Millisecond) (50 * Millisecond) gameA)
       = Some (100, 0, NewWorld)"
proof -
  have "snd (RewardSystem_Update (Some logReward) (ProjectileSystem_Update worldA (1 / 20)) []) = []"
    by (simp add: projectile_kill_A RewardSystem_Update_def GetEnemies_def)
  moreover have "map_option (\<lambda>g. (Gold (state g), Score (state g), world g))
        (Game_Update uuidA randA (50 * Millisecond) (50 * Millisecond) gameA)
       = Some (100, 0, NewWorld)"
    unfolding Game_Update_def gameA_fields
    by (simp add: dtA gameA_wave gameA_move gameA_combat gameA_projectile gameA_reward gameA_lifecycle)
  ultimately show ?thesis
    by (simp add: projectile_kill_A enemyA_def)
qed

lemma TakeDamage_alive_positive: "Alive (TakeDamage e d) \<Longrightarrow> 0 < EnemyEntity.HP (TakeDamage e d)"
  by (simp add: TakeDamage_def Let_def split: if_splits)

lemma splash_hit_alive_positive:
  "Alive e \<longrightarrow> 0 < EnemyEntity.HP e \<Longrightarrow>
   Alive (splash_hit pos r d i e) \<longrightarrow> 0 < EnemyEntity.HP (splash_hit pos r d i e)"
  by (auto simp: splash_hit_def Let_def dest: TakeDamage_alive_positive)

lemma list_all_map_entry:
  assumes "list_all (\<lambda>p. P (snd p)) al" "\<And>v. P v \<Longrightarrow> P (f v)"
  shows "list_all (\<lambda>p. P (snd p)) (AList.map_entry k f al)"
  using assms by (induction al) auto

lemma healthy_projectile_step:
  assumes "healthy w"
  shows "healthy (projectile_step dt i w)"
proof -
  let ?P = "\<lambda>e. Alive e \<longrightarrow> 0 < EnemyEntity.HP e"
  have base: "list_all (\<lambda>p. ?P (snd p)) (enemies w)"
    using assms by (simp add: healthy_def)
  have td: "list_all (\<lambda>p. ?P (snd p)) (AList.map_entry k (\<lambda>e. TakeDamage e d) (enemies w))" for k d
    using base by (rule list_all_map_entry) (auto dest: TakeDamage_alive_positive)
  have sp: "list_all (\<lambda>p. ?P (snd p)) (map (\<lambda>p. (fst p, splash_hit pos r d j (snd p))) al)"
    if "list_all (\<lambda>p. ?P (snd p)) al" for pos r d j al
    using that splash_hit_alive_positive by (induction al) auto
  show ?thesis
    unfolding healthy_def
    using base td sp [OF td]
    by (simp add: projectile_step_def Let_def update_enemy_def update_projectile_def
        applySplashDamage_def split: option.splits)
qed

lemma healthy_fold_projectile_step:
  "healthy w \<Longrightarrow> healthy (fold (projectile_step dt) ids w)"
  by (induction ids arbitrary: w) (auto intro: healthy_projectile_step)

lemma reward_step_healthy:
  assumes "healthy w"
  shows "reward_step f i (w, st) = (w, st)"
proof (cases "map_of (enemies w) i")
  case None
  then show ?thesis by (simp add: reward_step_def)
next
  case (Some e)
  then have "(i, e) \<in> set (enemies w)"
    by (rule map_of_SomeD)
  with assms have "Alive e \<longrightarrow> 0 < EnemyEntity.HP e"
    by (auto simp: healthy_def list_all_iff)
  with Some show ?thesis
    by (auto simp: reward_step_def)
qed

lemma reward_fold_healthy:
  "healthy w \<Longrightarrow> fold (reward_step f) ids (w, st) = (w, st)"
  by (induction ids) (simp_all add: reward_step_healthy)

lemma no_reward_after_projectiles:
  assumes "healthy w"
  shows "RewardSystem_Update f (ProjectileSystem_Update w dt) st = (ProjectileSystem_Update w dt, st)"
  using assms
  by (simp add: RewardSystem_Update_def ProjectileSystem_Update_def reward_fold_healthy
      healthy_fold_projectile_step)

lemma uuidA_simps: "uuidA 0 = ''uuid-''" "uuidA (Suc 0) = ''uuid-1''" "uuidA 2 = ''uuid-11''"
  "uuidA 3 = ''uuid-111''"
  by (simp_all add: uuidA_def numeral_2_eq_2 numeral_3_eq_3)

lemma CreateEnemy_A: "CreateEnemy cfgA uid ''basic'' \<lparr>X = 0, Y = 0\<rparr> 1 = Inr (basicA uid)"
  by (simp add: CreateEnemy_def GetEnemyConfig_def cfgA_def ScaleEnemyHP_def basicA_def)

lemma batch_A: "CreateEnemiesForWave cfgA uuidA 0 1 \<lparr>X = 0, Y = 0\<rparr>
    = (Inr [basicA (uuidA 0), basicA (uuidA 1)], 2)"
proof -
  have "createN cfgA uuidA \<lparr>X = 0, Y = 0\<rparr> 1 ''basic'' (Suc (Suc 0)) ([], 0)
      = (Inr [basicA (uuidA 0), basicA (uuidA 1)], 2)"
    by (simp add: CreateEnemy_A)
  moreover have "GetWaveComposition cfgA 1 = \<lparr>Basic = 2, Fast = 0, Tank = 0, Boss = 0\<rparr>"
    by (simp add: GetWaveComposition_def cfgA_def signed_modulo_int_def)
  ultimately show ?thesis
    by (simp add: CreateEnemiesForWave_def createN_if_def numeral_2_eq_2)
qed

lemma comp_A: "GetWaveComposition cfgA 1 = \<lparr>Basic = 2, Fast = 0, Tank = 0, Boss = 0\<rparr>"
  by (simp add: GetWaveComposition_def cfgA_def signed_modulo_int_def)

lemma wave_tick1:
  "WaveSystem_Update cfgA uuidA randA (11 * Second) (11 * Second) (waveA0, NewWorld, 0)
     = Some (waveA1, worldA1, 2)"
proof -
  have sw: "spawnWave cfgA uuidA randA (11 * Second) (waveA0, NewWorld, 0)
     = (waveA1\<lparr>lastWaveTime := 0\<rparr>, worldA1, 2)"
    by (simp add: spawnWave_def waveA0_def NewWaveSystem_def batch_A nextSpawnDelay_def randA_def
        Let_def waveA1_def worldA1_def uuidA_simps Second_def Millisecond_def)
  have "drip_loop cfgA uuidA randA (11 * Second) (waveA1, worldA1, 2) = Some (waveA1, worldA1, 2)"
    by (rule drip_loop_stop) (simp add: waveA1_def Second_def Millisecond_def)
  then show ?thesis
    by (simp add: WaveSystem_Update_def sw)
       (simp add: waveA0_def waveA1_def NewWaveSystem_def Second_def)
qed

lemma wave_tick2:
  "WaveSystem_Update cfgA uuidA randA (12 * Second) (12 * Second) (waveA1, worldA1, 2)
     = Some (waveA2, worldA2, 3)"
proof -
  have sn: "spawnNextEnemy cfgA uuidA randA (waveA1, worldA1, 2)
      = Some (waveA1\<lparr>rngPos := 2, remainingInWave := 1\<rparr>, worldA2, 3)"
    by (simp add: spawnNextEnemy_def waveA1_def comp_A
        selectEnemyType_def Intn_def randA_def CreateEnemy_A uuidA_simps worldA2_def Let_def)
  have "drip_loop cfgA uuidA randA (12 * Second) (waveA1, worldA1, 2) = Some (waveA2, worldA2, 3)"
    by (subst drip_loop_once [OF _ _ sn])
       (simp_all add: waveA1_def waveA2_def nextSpawnDelay_def randA_def Let_def Second_def
          Millisecond_def)
  then show ?thesis
    by (simp add: WaveSystem_Update_def waveA1_def)
qed

lemma wave_tick3:
  "WaveSystem_Update cfgA uuidA randA (13 * Second) (13 * Second) (waveA2, worldA2, 3)
     = Some (waveA3, worldA3, 4)"
proof -
  have sn: "spawnNextEnemy cfgA uuidA randA (waveA2, worldA2, 3)
      = Some (waveA2\<lparr>rngPos := 4, remainingInWave := 0\<rparr>, worldA3, 4)"
    by (simp add: spawnNextEnemy_def waveA2_def comp_A
        selectEnemyType_def Intn_def randA_def CreateEnemy_A uuidA_simps worldA3_def Let_def)
  have "drip_loop cfgA uuidA randA (13 * Second) (waveA2, worldA2, 3) = Some (waveA3, worldA3, 4)"
    by (subst drip_loop_once [OF _ _ sn])
       (simp_all add: waveA2_def waveA3_def nextSpawnDelay_def randA_def Let_def Second_def
          Millisecond_def)
  then show ?thesis
    by (simp add: WaveSystem_Update_def waveA2_def)
qed

text \<open>
  Claim C2. The claim asks for exactly n admitted enemies for a batch of size n, all from
  the batch. Here the batch of wave 1 has two enemies (identifiers \<open>uuid-\<close> and
  \<open>uuid-1\<close>); three updates of the wave stage admit three enemies, and the second and
  third (\<open>uuid-11\<close>, \<open>uuid-111\<close>) are created afresh, not taken from the batch.
\<close>

theorem wave_of_two_spawns_three:
  "fst (CreateEnemiesForWave cfgA uuidA 0 1 \<lparr>X = 0, Y = 0\<rparr>)
     = Inr [basicA ''uuid-'', basicA ''uuid-1'']
   \<and> Option.bind (WaveSystem_Update cfgA uuidA randA (11 * Second) (11 * Second)
                    (waveA0, NewWorld, 0))
       (\<lambda>a1. Option.bind (WaveSystem_Update cfgA uuidA randA (12 * Second) (12 * Second) a1)
          (WaveSystem_Update cfgA uuidA randA (13 * Second) (13 * Second)))
     = Some (waveA3, worldA3, 4)
   \<and> remainingInWave waveA3 = 0
   \<and> map fst (enemies worldA3) = [''uuid-'', ''uuid-11'', ''uuid-111'']
   \<and> length (GetEnemies worldA3) = 3"
  by (simp add: batch_A wave_tick1 wave_tick2 wave_tick3 uuidA_simps)
     (simp add: worldA3_def worldA2_def worldA1_def NewWorld_def basicA_def GetEnemies_def
        waveA3_def)

lemma fold_remaining:
  "fold (\<lambda>i t. t\<lparr>remainingInWave := remainingInWave t + 1\<rparr>) [a..<b] s
     = s\<lparr>remainingInWave := remainingInWave s + int (b - a)\<rparr>"
  by (induction b) (auto simp: Suc_diff_le)

lemma spawnWave_remaining:
  assumes "CreateEnemiesForWave c gen k (currentWave s + 1) (startPos s) = (Inr batch, k1)"
    and "batch \<noteq> []"
  shows "remainingInWave (fst (spawnWave c gen rand now (s, w, k))) = 2 * int (length batch) - 2"
    and "fst (snd (spawnWave c gen rand now (s, w, k))) = AddEntity w (EnemyE (hd batch))"
  using assms
  by (auto simp: spawnWave_def Let_def fold_remaining nextSpawnDelay_def Suc_le_eq
      split: list.splits)

lemma gameP_fields:
  "config gameP = cfgA" "world gameP = NewWorld" "path gameP = [\<lparr>X = 0, Y = 0\<rparr>, \<lparr>X = 100, Y = 0\<rparr>]"
  "state gameP = \<lparr>Wave = 0, Gold = 100, Lives = 20, Score = 0, GameOver = False\<rparr>"
  "uuidPos gameP = 0"
  by (simp_all add: gameP_def NewGame_def cfgA_def)

lemma cfgA_fields:
  "GetTowerConfig cfgA ''basic'' = Inr \<lparr>Cost = 50, Range = 100, Damage = 10, FireRate = 1, SplashRadius = 0\<rparr>"
  "Placement cfgA = \<lparr>MinDistanceFromPath = 30, MinTowerSpacing = 40, MaxTowers = 20\<rparr>"
  by (simp_all add: cfgA_def GetTowerConfig_def)

lemma CreateTower_A: "CreateTower cfgA uid 0 ''basic'' pos = Inr (towerP uid pos)"
  by (simp add: CreateTower_def cfgA_fields towerP_def)

lemma dist_P: "distanceToSegment \<lparr>X = 50, Y = 10\<rparr> \<lparr>X = 0, Y = 0\<rparr> \<lparr>X = 100, Y = 0\<rparr> = 100"
  by (simp add: distanceToSegment_def Let_def)

text \<open>
  Claim C3. The claim asks that a tower closer to the path than \<open>MinDistanceFromPath\<close> is
  rejected. The point (50, 10) is 10 units from the point (50, 0) of the only segment,
  the minimum is 30; \<open>distanceToSegment\<close> returns the squared distance 100, which is not
  below 30, so the placement is accepted: no error, gold 100 becomes 50, one tower.
\<close>

theorem tower_accepted_near_path:
  "sqrt ((50 - 50) * (50 - 50) + (10 - 0) * (10 - 0)) = (10 :: real)
   \<and> (10 :: real) < MinDistanceFromPath (Placement (config gameP))
   \<and> path gameP = [\<lparr>X = 0, Y = 0\<rparr>, \<lparr>X = 100, Y = 0\<rparr>]
   \<and> distanceToSegment \<lparr>X = 50, Y = 10\<rparr> \<lparr>X = 0, Y = 0\<rparr> \<lparr>X = 100, Y = 0\<rparr> = 100
   \<and> isValidPlacement gameP \<lparr>X = 50, Y = 10\<rparr>
   \<and> fst (AddTower uuidA 0 gameP ''basic'' 50 10) = None
   \<and> Gold (state gameP) = 100
   \<and> Gold (state (snd (AddTower uuidA 0 gameP ''basic'' 50 10))) = 50
   \<and> TowerCount (world gameP) = 0
   \<and> TowerCount (world (snd (AddTower uuidA 0 gameP ''basic'' 50 10))) = 1"
proof -
  have v: "isValidPlacement gameP \<lparr>X = 50, Y = 10\<rparr>"
    by (simp add: isValidPlacement_def gameP_fields cfgA_fields dist_P TowerCount_def NewWorld_def
        GetTowers_def)
  have a: "AddTower uuidA 0 gameP ''basic'' 50 10 =
      (None, gameP\<lparr>world := AddEntity NewWorld (TowerE (towerP ''uuid-'' \<lparr>X = 50, Y = 10\<rparr>)),
                  state := \<lparr>Wave = 0, Gold = 50, Lives = 20, Score = 0, GameOver = False\<rparr>,
                  uuidPos := 1\<rparr>)"
    using v by (simp add: AddTower_def gameP_fields cfgA_fields CreateTower_A uuidA_simps Let_def)
  show ?thesis
    using v by (simp add: a dist_P gameP_fields cfgA_fields TowerCount_def NewWorld_def towerP_def)
qed

lemma update_fresh: "k \<notin> fst ` set al \<Longrightarrow> AList.update k v al = al @ [(k, v)]"
  by (induction al) auto

lemma keys_ok_Nil [simp]: "keys_ok []"
  by (simp add: keys_ok_def)

lemma set_update_subset: "set (AList.update k v al) \<subseteq> insert (k, v) (set al)"
  by (induction al) auto

lemma keys_ok_update: "keys_ok al \<Longrightarrow> keys_ok (AList.update (ID e) e al)"
  using set_update_subset [of "ID e" e al]
  by (auto simp: keys_ok_def distinct_update)

lemma keys_ok_delete: "keys_ok al \<Longrightarrow> keys_ok (AList.delete k al)"
  by (auto simp: keys_ok_def distinct_delete) (auto simp: AList.delete_eq)



lemma world_inv_NewWorld: "world_inv NewWorld"
  by (simp add: world_inv_def NewWorld_def)

lemma world_inv_Clear: "world_inv (Clear w)"
  by (simp add: world_inv_def Clear_def)

lemma world_inv_AddEntity: "world_inv w \<Longrightarrow> world_inv (AddEntity w e)"
  by (cases e) (simp_all add: world_inv_def keys_ok_update)

lemma fold_update_fresh:
  assumes "distinct (map key ds)" "set (map key ds) \<inter> fst ` set al = {}"
  shows "fold (\<lambda>d. AList.update (key d) (val d)) ds al = al @ map (\<lambda>d. (key d, val d)) ds"
  using assms
proof (induction ds arbitrary: al)
  case Nil
  then show ?case by simp
next
  case (Cons d ds)
  have "AList.update (key d) (val d) al = al @ [(key d, val d)]"
    using Cons.prems(2) by (intro update_fresh) auto
  moreover have "set (map key ds) \<inter> fst ` set (al @ [(key d, val d)]) = {}"
    using Cons.prems by auto
  ultimately show ?case
    using Cons.IH [of "al @ [(key d, val d)]"] Cons.prems(1) by simp
qed

lemma towers_fold_AddEntity_tower:
  "towers (fold (\<lambda>d w. AddEntity w (TowerE (f d))) ds w)
     = fold (\<lambda>d. AList.update (ID (f d)) (f d)) ds (towers w)"
  "enemies (fold (\<lambda>d w. AddEntity w (TowerE (f d))) ds w) = enemies w"
  "projectiles (fold (\<lambda>d w. AddEntity w (TowerE (f d))) ds w) = projectiles w"
  by (induction ds arbitrary: w) simp_all

lemma enemies_fold_AddEntity_enemy:
  "enemies (fold (\<lambda>d w. AddEntity w (EnemyE (f d))) ds w)
     = fold (\<lambda>d. AList.update (ID (f d)) (f d)) ds (enemies w)"
  "towers (fold (\<lambda>d w. AddEntity w (EnemyE (f d))) ds w) = towers w"
  "projectiles (fold (\<lambda>d w. AddEntity w (EnemyE (f d))) ds w) = projectiles w"
  by (induction ds arbitrary: w) simp_all

lemma projectiles_fold_AddEntity_projectile:
  "projectiles (fold (\<lambda>d w. AddEntity w (ProjectileE (f d))) ds w)
     = fold (\<lambda>d. AList.update (ID (f d)) (f d)) ds (projectiles w)"
  "towers (fold (\<lambda>d w. AddEntity w (ProjectileE (f d))) ds w) = towers w"
  "enemies (fold (\<lambda>d w. AddEntity w (ProjectileE (f d))) ds w) = enemies w"
  by (induction ds arbitrary: w) simp_all

lemma convert_restore_tower: "convertTower (restoreTower now d) = d"
  by (simp add: convertTower_def restoreTower_def)

lemma convert_restore_enemy: "convertEnemy (restoreEnemy d) = d"
  by (simp add: convertEnemy_def restoreEnemy_def)

lemma convert_restore_projectile: "convertProjectile (restoreProjectile d) = d"
  by (simp add: convertProjectile_def restoreProjectile_def)

lemma keys_ok_alive_ids:
  assumes "keys_ok al"
  shows "distinct (map ID (filter Alive (map snd al)))"
proof -
  have "map ID (map snd al) = map fst al"
    using assms by (auto simp: keys_ok_def)
  moreover have "distinct (map fst al)"
    using assms by (simp add: keys_ok_def)
  ultimately have "distinct (map ID (map snd al))"
    by (simp only:)
  then show ?thesis
    by (rule distinct_map_filter)
qed

lemma restore_list:
  assumes "distinct (map (\<lambda>d. ID (r d)) ds)" "\<And>d. Alive (r d)" "\<And>d. c (r d) = d"
  shows "map c (filter Alive (map snd (fold (\<lambda>d. AList.update (ID (r d)) (r d)) ds []))) = ds"
proof -
  have "fold (\<lambda>d. AList.update (ID (r d)) (r d)) ds [] = [] @ map (\<lambda>d. (ID (r d), r d)) ds"
    using assms(1) by (intro fold_update_fresh) simp_all
  then show ?thesis
    using assms(2,3) by (simp add: comp_def)
qed

lemma LoadFromState_GetState:
  assumes inv: "world_inv (world g)"
  shows "GetState (snd (LoadFromState Some now g2 (GetState g))) = GetState g"
proof -
  have dt: "distinct (map (\<lambda>d. ID (restoreTower now d)) (convertTowers g))"
    using keys_ok_alive_ids [of "towers (world g)"] inv
    by (simp add: world_inv_def convertTowers_def GetTowers_def restoreTower_def convertTower_def
        comp_def)
  have de: "distinct (map (\<lambda>d. ID (restoreEnemy d)) (convertEnemies g))"
    using keys_ok_alive_ids [of "enemies (world g)"] inv
    by (simp add: world_inv_def convertEnemies_def GetEnemies_def restoreEnemy_def convertEnemy_def
        comp_def)
  have dp: "distinct (map (\<lambda>d. ID (restoreProjectile d)) (convertProjectiles g))"
    using keys_ok_alive_ids [of "projectiles (world g)"] inv
    by (simp add: world_inv_def convertProjectiles_def GetProjectiles_def restoreProjectile_def
        convertProjectile_def comp_def)
  have t: "map convertTower (filter Alive (map snd
             (fold (\<lambda>d. AList.update (ID (restoreTower now d)) (restoreTower now d))
                (convertTowers g) []))) = convertTowers g"
    using dt by (rule restore_list) (simp_all add: convert_restore_tower, simp add: restoreTower_def)
  have e: "map convertEnemy (filter Alive (map snd
             (fold (\<lambda>d. AList.update (ID (restoreEnemy d)) (restoreEnemy d))
                (convertEnemies g) []))) = convertEnemies g"
    using de by (rule restore_list) (simp_all add: convert_restore_enemy, simp add: restoreEnemy_def)
  have p: "map convertProjectile (filter Alive (map snd
             (fold (\<lambda>d. AList.update (ID (restoreProjectile d)) (restoreProjectile d))
                (convertProjectiles g) []))) = convertProjectiles g"
    using dp by (rule restore_list)
      (simp_all add: convert_restore_projectile, simp add: restoreProjectile_def)
  show ?thesis
    using t e p
    by (simp add: LoadFromState_def GetState_def Let_def convertTowers_def convertEnemies_def
        convertProjectiles_def GetTowers_def GetEnemies_def GetProjectiles_def Clear_def
        towers_fold_AddEntity_tower enemies_fold_AddEntity_enemy
        projectiles_fold_AddEntity_projectile del: AddEntity.simps)
qed

text \<open>
  Claim C4. A game \<open>g\<close> is saved with \<open>SaveState\<close> and the bytes are loaded with
  \<open>LoadFromState\<close> into any game \<open>g2\<close>, whatever its entities and counters were. The
  load succeeds, and the snapshot of the loaded game has the same towers, enemies and
  projectiles (identifiers, positions, stats) and the same wave, gold, lives, score and
  game-over flag as the snapshot of \<open>g\<close> at save time. Go iterates a map in no fixed
  order, so the entity lists are compared as multisets. The JSON codec is the library's: the
  hypothesis says that it decodes what it encoded.
\<close>

theorem save_load_round_trip:
  assumes inv: "world_inv (world g)"
    and codec: "unmarshal (marshal (GetState g)) = Some (GetState g)"
  shows "fst (LoadFromState unmarshal now g2 (SaveState marshal g)) = None
       \<and> mset (Towers (GetState (snd (LoadFromState unmarshal now g2 (SaveState marshal g)))))
           = mset (Towers (GetState g))
       \<and> mset (Enemies (GetState (snd (LoadFromState unmarshal now g2 (SaveState marshal g)))))
           = mset (Enemies (GetState g))
       \<and> mset (Projectiles (GetState (snd (LoadFromState unmarshal now g2 (SaveState marshal g)))))
           = mset (Projectiles (GetState g))
       \<and> GameStateSnapshot.Wave (GetState (snd (LoadFromState unmarshal now g2 (SaveState marshal g))))
           = GameStateSnapshot.Wave (GetState g)
       \<and> GameStateSnapshot.Gold (GetState (snd (LoadFromState unmarshal now g2 (SaveState marshal g))))
           = GameStateSnapshot.Gold (GetState g)
       \<and> GameStateSnapshot.Lives (GetState (snd (LoadFromState unmarshal now g2 (SaveState marshal g))))
           = GameStateSnapshot.Lives (GetState g)
       \<and> GameStateSnapshot.Score (GetState (snd (LoadFromState unmarshal now g2 (SaveState marshal g))))
           = GameStateSnapshot.Score (GetState g)
       \<and> GameStateSnapshot.GameOver (GetState (snd (LoadFromState unmarshal now g2 (SaveState marshal g))))
           = GameStateSnapshot.GameOver (GetState g)"
proof -
  have same: "LoadFromState unmarshal now g2 (SaveState marshal g)
                = LoadFromState Some now g2 (GetState g)"
    using codec by (simp add: LoadFromState_def SaveState_def)
  have ok: "fst (LoadFromState Some now g2 (GetState g)) = None"
    by (simp add: LoadFromState_def Let_def)
  show ?thesis
    unfolding same using ok LoadFromState_GetState [OF inv, of now g2] by simp
qed

lemma world_inv_gameR: "world_inv (world gameR)"
  by (simp add: gameR_def worldA_def world_inv_AddEntity world_inv_NewWorld del: AddEntity.simps)



lemma CanShoot_elapsed:
  "CanShoot t now \<longleftrightarrow>
     TowerEntity.FireRate t \<noteq> 0 \<and> Seconds (now - LastShot t) \<ge> 1 / TowerEntity.FireRate t"
  by (simp add: CanShoot_def Let_def)


lemma closest_loop_Cons:
  "closest_loop tower (enemy # es) acc =
     (if Alive enemy \<and> tower_dist tower enemy < snd acc
      then closest_loop tower es (Some enemy, tower_dist tower enemy)
      else closest_loop tower es acc)"
  by (simp add: tower_dist_def Let_def)

lemma closest_loop_unchanged:
  assumes "\<forall>e\<in>set es. Alive e \<longrightarrow> m0 \<le> tower_dist tower e"
  shows "closest_loop tower es (c0, m0) = (c0, m0)"
  using assms by (induction es) (auto simp: closest_loop_Cons simp del: closest_loop.simps(2))

lemma find_filter_cong:
  assumes "\<And>x. x \<in> set xs \<Longrightarrow> R x \<Longrightarrow> P x = Q x"
  shows "find R (filter P xs) = find R (filter Q xs)"
  using assms by (induction xs) auto

lemma closest_loop_found:
  assumes "\<exists>e\<in>set es. Alive e \<and> tower_dist tower e < m0"
  shows "\<exists>e m. closest_loop tower es (c0, m0) = (Some e, m)
           \<and> m < m0
           \<and> m = Min (tower_dist tower ` set (filter (\<lambda>e. Alive e \<and> tower_dist tower e < m0) es))
           \<and> find (\<lambda>e. tower_dist tower e = m)
                (filter (\<lambda>e. Alive e \<and> tower_dist tower e < m0) es) = Some e"
  using assms
proof (induction es arbitrary: c0 m0)
  case Nil
  then show ?case by simp
next
  case (Cons a es)
  let ?d = "tower_dist tower"
  let ?C = "\<lambda>m es. filter (\<lambda>e. Alive e \<and> ?d e < m) es"
  show ?case
  proof (cases "Alive a \<and> ?d a < m0")
    case True
    show ?thesis
    proof (cases "\<exists>e\<in>set es. Alive e \<and> ?d e < ?d a")
      case False
      then have u: "closest_loop tower es (Some a, ?d a) = (Some a, ?d a)"
        by (intro closest_loop_unchanged) (auto simp: not_less)
      have "\<forall>x\<in>set (?C m0 es). ?d a \<le> ?d x"
        using False by (auto simp: not_less)
      then have "Min (?d ` set (?C m0 (a # es))) = ?d a"
        using True by (intro Min_eqI) auto
      then show ?thesis
        using True u by (simp add: closest_loop_Cons del: closest_loop.simps(2))
    next
      case later: True
      from Cons.IH [OF later, of "Some a"] obtain e m where
        r: "closest_loop tower es (Some a, ?d a) = (Some e, m)" "m < ?d a"
          "m = Min (?d ` set (?C (?d a) es))"
          "find (\<lambda>e. ?d e = m) (?C (?d a) es) = Some e"
        by blast
      have ne: "?C (?d a) es \<noteq> []"
        using later by (auto simp: filter_empty_conv)
      have m_in: "m \<in> ?d ` set (?C (?d a) es)"
        unfolding r(3) using ne by (intro Min_in) (auto simp: filter_empty_conv)
      have min_all: "Min (?d ` set (?C m0 (a # es))) = m"
      proof (rule Min_eqI)
        show "finite (?d ` set (?C m0 (a # es)))" by simp
        show "m \<in> ?d ` set (?C m0 (a # es))"
          using m_in True by auto
        fix y assume "y \<in> ?d ` set (?C m0 (a # es))"
        then obtain x where x: "y = ?d x" "x = a \<or> (x \<in> set es \<and> Alive x \<and> ?d x < m0)"
          using True by auto
        show "m \<le> y"
        proof (cases "?d x < ?d a")
          case True
          then have "x \<in> set (?C (?d a) es)"
            using x(2) by auto
          then have "Min (?d ` set (?C (?d a) es)) \<le> ?d x"
            by (intro Min_le) auto
          then show ?thesis using x(1) r(3) by simp
        next
          case False
          then show ?thesis using r(2) x(1) by simp
        qed
      qed
      have "find (\<lambda>e. ?d e = m) (?C m0 es) = find (\<lambda>e. ?d e = m) (?C (?d a) es)"
        using r(2) True by (intro find_filter_cong) auto
      then have "find (\<lambda>e. ?d e = m) (?C m0 (a # es)) = Some e"
        using True r(2,4) by simp
      then show ?thesis
        using True r(1,2) min_all by (simp add: closest_loop_Cons del: closest_loop.simps(2))
    qed
  next
    case False
    then have ex: "\<exists>e\<in>set es. Alive e \<and> ?d e < m0"
      using Cons.prems by auto
    have cl: "closest_loop tower (a # es) (c0, m0) = closest_loop tower es (c0, m0)"
      using False by (auto simp: closest_loop_Cons simp del: closest_loop.simps(2))
    have f: "?C m0 (a # es) = ?C m0 es"
      using False by auto
    show ?thesis
      unfolding cl f by (rule Cons.IH [OF ex])
  qed
qed

lemma closest_loop_nearest:
  "fst (closest_loop tower es (None, TowerEntity.Range tower)) = nearest_in_range tower es"
proof (cases "\<exists>e\<in>set es. Alive e \<and> tower_dist tower e < TowerEntity.Range tower")
  case True
  from closest_loop_found [OF True, of None] obtain e m where
    r: "closest_loop tower es (None, TowerEntity.Range tower) = (Some e, m)"
      "m = Min (tower_dist tower ` set (filter (\<lambda>e. Alive e \<and> tower_dist tower e < TowerEntity.Range tower) es))"
      "find (\<lambda>e. tower_dist tower e = m)
         (filter (\<lambda>e. Alive e \<and> tower_dist tower e < TowerEntity.Range tower) es) = Some e"
    by blast
  have "filter (\<lambda>e. Alive e \<and> tower_dist tower e < TowerEntity.Range tower) es \<noteq> []"
    using True by (auto simp: filter_empty_conv)
  then show ?thesis
    using r by (simp add: nearest_in_range_def Let_def)
next
  case False
  then have "closest_loop tower es (None, TowerEntity.Range tower) = (None, TowerEntity.Range tower)"
    by (intro closest_loop_unchanged) (auto simp: not_less)
  moreover have "filter (\<lambda>e. Alive e \<and> tower_dist tower e < TowerEntity.Range tower) es = []"
    using False by (auto simp: filter_empty_conv)
  ultimately show ?thesis
    by (simp add: nearest_in_range_def)
qed

lemma find_Some_member: "find P xs = Some x \<Longrightarrow> x \<in> set xs \<and> P x"
  by (induction xs) (auto split: if_splits)

lemma nearest_in_range_Some:
  assumes "nearest_in_range tower es = Some e"
  shows "e \<in> set es \<and> Alive e \<and> tower_dist tower e < TowerEntity.Range tower
       \<and> (\<forall>e'\<in>set es. Alive e' \<longrightarrow> tower_dist tower e \<le> tower_dist tower e')"
proof -
  let ?cands = "filter (\<lambda>e. Alive e \<and> tower_dist tower e < TowerEntity.Range tower) es"
  have f: "find (\<lambda>e. tower_dist tower e = Min (tower_dist tower ` set ?cands)) ?cands = Some e"
    using assms by (simp add: nearest_in_range_def Let_def split: if_splits)
  have e: "e \<in> set ?cands \<and> tower_dist tower e = Min (tower_dist tower ` set ?cands)"
    using f by (rule find_Some_member)
  have "tower_dist tower e \<le> tower_dist tower e'" if "e' \<in> set es" "Alive e'" for e'
  proof (cases "tower_dist tower e' < TowerEntity.Range tower")
    case True
    then have "e' \<in> set ?cands" using that by simp
    then have "Min (tower_dist tower ` set ?cands) \<le> tower_dist tower e'"
      by (intro Min_le) auto
    then show ?thesis using e by simp
  next
    case False
    then show ?thesis using e by simp
  qed
  then show ?thesis using e by simp
qed

lemma nearest_in_range_None:
  "nearest_in_range tower es = None \<longleftrightarrow>
     (\<forall>e\<in>set es. Alive e \<longrightarrow> TowerEntity.Range tower \<le> tower_dist tower e)"
proof (cases "\<exists>e\<in>set es. Alive e \<and> tower_dist tower e < TowerEntity.Range tower")
  case True
  from closest_loop_found [OF True, of None] obtain e m where
    "closest_loop tower es (None, TowerEntity.Range tower) = (Some e, m)"
    by blast
  then have "nearest_in_range tower es = Some e"
    using closest_loop_nearest [of tower es] by simp
  then have "nearest_in_range tower es \<noteq> None"
    by simp
  then show ?thesis
    using True by (auto simp: not_le)
next
  case False
  then have "filter (\<lambda>e. Alive e \<and> tower_dist tower e < TowerEntity.Range tower) es = []"
    by (auto simp: filter_empty_conv)
  then show ?thesis
    using False by (auto simp: nearest_in_range_def not_less)
qed

lemma combat_step_eq:
  assumes "map_of (towers w) i = Some tower"
  shows "combat_step c gen now es i (w, k) =
     (if Alive tower \<and> CanShoot tower now
      then (case nearest_in_range tower es of
              None \<Rightarrow> (w, k)
            | Some target \<Rightarrow>
                (case GameConfig.Projectiles c (projType_of tower) of
                   None \<Rightarrow> (w, k)
                 | Some pc \<Rightarrow>
                     (update_tower i (\<lambda>t. t\<lparr>LastShot := now\<rparr>)
                        (AddEntity w (ProjectileE (fired_projectile (gen k) tower target pc))),
                      Suc k)))
      else (w, k))"
  using assms closest_loop_nearest [of tower es]
  by (auto simp: combat_step_def CreateProjectile_def GetProjectileConfig_def fired_projectile_def
      Shoot_def split: option.splits)

lemma find_filter_first:
  assumes "find R (filter P es) = Some e"
  shows "\<exists>pre post. es = pre @ e # post \<and> (\<forall>x\<in>set pre. \<not> (P x \<and> R x))"
  using assms
proof (induction es)
  case Nil
  then show ?case by simp
next
  case (Cons a es)
  show ?case
  proof (cases "P a \<and> R a")
    case True
    then have "a # es = [] @ e # es \<and> (\<forall>x\<in>set []. \<not> (P x \<and> R x))"
      using Cons.prems by simp
    then show ?thesis by blast
  next
    case False
    then have "find R (filter P es) = Some e"
      using Cons.prems by (auto split: if_splits)
    from Cons.IH [OF this] obtain pre post where
      "es = pre @ e # post" "\<forall>x\<in>set pre. \<not> (P x \<and> R x)"
      by blast
    then have "a # es = (a # pre) @ e # post \<and> (\<forall>x\<in>set (a # pre). \<not> (P x \<and> R x))"
      using False by simp
    then show ?thesis by blast
  qed
qed

lemma nearest_in_range_first:
  assumes "nearest_in_range tower es = Some e"
  shows "\<exists>pre post. es = pre @ e # post
           \<and> (\<forall>x\<in>set pre. Alive x \<longrightarrow> tower_dist tower e < tower_dist tower x)"
proof -
  let ?P = "\<lambda>e. Alive e \<and> tower_dist tower e < TowerEntity.Range tower"
  let ?cands = "filter ?P es"
  let ?R = "\<lambda>e. tower_dist tower e = Min (tower_dist tower ` set ?cands)"
  have f: "find ?R ?cands = Some e"
    using assms by (simp add: nearest_in_range_def Let_def split: if_splits)
  from find_filter_first [OF f] obtain pre post where
    pp: "es = pre @ e # post" "\<forall>x\<in>set pre. \<not> (?P x \<and> ?R x)"
    by blast
  have e: "e \<in> set ?cands \<and> ?R e"
    using f by (rule find_Some_member)
  have "tower_dist tower e < tower_dist tower x" if "x \<in> set pre" "Alive x" for x
  proof (cases "tower_dist tower x < TowerEntity.Range tower")
    case True
    then have "x \<in> set ?cands"
      using that pp(1) by simp
    then have "Min (tower_dist tower ` set ?cands) \<le> tower_dist tower x"
      by (intro Min_le) auto
    moreover have "tower_dist tower x \<noteq> Min (tower_dist tower ` set ?cands)"
      using pp(2) that True by blast
    ultimately show ?thesis
      using e by simp
  next
    case False
    then show ?thesis using e by simp
  qed
  then show ?thesis
    using pp(1) by blast
qed

lemma towers_AddEntity_projectile [simp]: "towers (AddEntity w (ProjectileE p)) = towers w"
  by simp

lemma combat_step_towers:
  "map_of (towers (fst (combat_step c gen now es i (w, k)))) j =
     (if j = i then map_option (\<lambda>t. if fires c now es t then Shoot t now else t) (map_of (towers w) i)
      else map_of (towers w) j)"
proof (cases "map_of (towers w) i")
  case None
  then show ?thesis
    by (simp add: combat_step_def)
next
  case (Some tower)
  show ?thesis
    unfolding combat_step_eq [OF Some]
    using Some
    by (auto simp: fires_def update_tower_def map_of_map_entry Shoot_def split: option.splits)
qed

lemma combat_step_counter:
  "snd (combat_step c gen now es i (w, k)) =
     (case map_of (towers w) i of
        None \<Rightarrow> k
      | Some t \<Rightarrow> if fires c now es t then Suc k else k)"
proof (cases "map_of (towers w) i")
  case None
  then show ?thesis
    by (simp add: combat_step_def)
next
  case (Some tower)
  show ?thesis
    unfolding combat_step_eq [OF Some]
    using Some by (auto simp: fires_def split: option.splits)
qed

lemma combat_step_enemies: "enemies (fst (combat_step c gen now es i (w, k))) = enemies w"
  by (auto simp: combat_step_def update_tower_def split: option.splits sum.splits)

lemma combat_fold:
  assumes "distinct ids"
  shows "map_of (towers (fst (fold (combat_step c gen now es) ids (w, k)))) j =
           (if j \<in> set ids
            then map_option (\<lambda>t. if fires c now es t then Shoot t now else t) (map_of (towers w) j)
            else map_of (towers w) j)
       \<and> snd (fold (combat_step c gen now es) ids (w, k)) =
           k + length (filter (\<lambda>i. case map_of (towers w) i of
                                      None \<Rightarrow> False | Some t \<Rightarrow> fires c now es t) ids)
       \<and> enemies (fst (fold (combat_step c gen now es) ids (w, k))) = enemies w"
  using assms
proof (induction ids arbitrary: w k)
  case Nil
  then show ?case by simp
next
  case (Cons i ids)
  obtain w1 k1 where s: "combat_step c gen now es i (w, k) = (w1, k1)"
    by (cases "combat_step c gen now es i (w, k)")
  have t1: "map_of (towers w1) j' =
     (if j' = i then map_option (\<lambda>t. if fires c now es t then Shoot t now else t) (map_of (towers w) i)
      else map_of (towers w) j')" for j'
    using combat_step_towers [of c gen now es i w k j'] s by simp
  have k1: "k1 = (case map_of (towers w) i of None \<Rightarrow> k
                  | Some t \<Rightarrow> if fires c now es t then Suc k else k)"
    using combat_step_counter [of c gen now es i w k] s by simp
  have e1: "enemies w1 = enemies w"
    using combat_step_enemies [of c gen now es i w k] s by simp
  have same: "(case map_of (towers w1) i' of None \<Rightarrow> False | Some t \<Rightarrow> fires c now es t)
            = (case map_of (towers w) i' of None \<Rightarrow> False | Some t \<Rightarrow> fires c now es t)"
    if "i' \<in> set ids" for i'
    using that Cons.prems t1 [of i'] by auto
  have cnt: "filter (\<lambda>i. case map_of (towers w1) i of None \<Rightarrow> False | Some t \<Rightarrow> fires c now es t) ids
           = filter (\<lambda>i. case map_of (towers w) i of None \<Rightarrow> False | Some t \<Rightarrow> fires c now es t) ids"
    using same by (intro filter_cong) auto
  from Cons.IH [of w1 k1] Cons.prems
  have ih: "map_of (towers (fst (fold (combat_step c gen now es) ids (w1, k1)))) j =
           (if j \<in> set ids
            then map_option (\<lambda>t. if fires c now es t then Shoot t now else t) (map_of (towers w1) j)
            else map_of (towers w1) j)"
    "snd (fold (combat_step c gen now es) ids (w1, k1)) =
           k1 + length (filter (\<lambda>i. case map_of (towers w1) i of
                                      None \<Rightarrow> False | Some t \<Rightarrow> fires c now es t) ids)"
    "enemies (fst (fold (combat_step c gen now es) ids (w1, k1))) = enemies w1"
    by simp_all
  have step: "fold (combat_step c gen now es) (i # ids) (w, k)
                = fold (combat_step c gen now es) ids (w1, k1)"
    by (simp add: s)
  show ?case
    unfolding step ih cnt e1
    using Cons.prems by (auto simp: t1 k1 split: option.splits)
qed



lemma fst_kill_at_end [simp]: "fst (kill_at_end pl S q) = fst q"
  by (simp add: kill_at_end_def)






lemma enemies_delete_typed:
  "enemies (delete_typed i k w) =
     (if k = EntityTypeEnemy then AList.delete i (enemies w) else enemies w)"
  by (cases k) (simp_all add: delete_typed_def)

lemma cleanup_step_enemies:
  assumes "distinct (map fst (enemies w))"
  shows "\<exists>D. enemies (fst (cleanup_step p (w, r))) = filter (\<lambda>q. fst q \<notin> D) (enemies w)
            \<and> (\<forall>q\<in>set (enemies w). fst q \<in> D \<longrightarrow> \<not> Alive (snd q))"
proof (cases "\<not> IsAlive_stored w (fst p) (snd p) \<and> snd p = EntityTypeEnemy")
  case True
  then obtain e where e: "map_of (enemies w) (fst p) = Some e" "\<not> Alive e"
    by (auto simp: IsAlive_stored_def split: option.splits)
  have one: "\<forall>q\<in>set (enemies w). fst q = fst p \<longrightarrow> snd q = e"
    using e(1) assms by (metis map_of_is_SomeI option.inject prod.collapse)
  have "enemies (fst (cleanup_step p (w, r))) = filter (\<lambda>q. fst q \<notin> {fst p}) (enemies w)"
    using True by (auto simp: cleanup_step_def enemies_delete_typed AList.delete_eq
        intro!: filter_cong)
  moreover have "\<forall>q\<in>set (enemies w). fst q \<in> {fst p} \<longrightarrow> \<not> Alive (snd q)"
    using one e(2) by auto
  ultimately show ?thesis by blast
next
  case False
  then have "enemies (fst (cleanup_step p (w, r))) = filter (\<lambda>q. fst q \<notin> {}) (enemies w)"
    by (auto simp: cleanup_step_def enemies_delete_typed)
  then show ?thesis by blast
qed

lemma cleanup_fold_enemies:
  assumes "distinct (map fst (enemies w))"
  shows "\<exists>D. enemies (fst (fold cleanup_step ps (w, r))) = filter (\<lambda>q. fst q \<notin> D) (enemies w)
            \<and> (\<forall>q\<in>set (enemies w). fst q \<in> D \<longrightarrow> \<not> Alive (snd q))"
  using assms
proof (induction ps arbitrary: w r)
  case Nil
  have "enemies w = filter (\<lambda>q. fst q \<notin> {}) (enemies w)" by simp
  then show ?case by force
next
  case (Cons p ps)
  obtain w1 r1 where s: "cleanup_step p (w, r) = (w1, r1)"
    by (cases "cleanup_step p (w, r)")
  from cleanup_step_enemies [OF Cons.prems, of p r] s obtain D1 where
    d1: "enemies w1 = filter (\<lambda>q. fst q \<notin> D1) (enemies w)"
      "\<forall>q\<in>set (enemies w). fst q \<in> D1 \<longrightarrow> \<not> Alive (snd q)"
    by auto
  have "distinct (map fst (enemies w1))"
    using Cons.prems by (simp add: d1(1) distinct_map_filter)
  from Cons.IH [OF this, of r1] obtain D2 where
    d2: "enemies (fst (fold cleanup_step ps (w1, r1))) = filter (\<lambda>q. fst q \<notin> D2) (enemies w1)"
      "\<forall>q\<in>set (enemies w1). fst q \<in> D2 \<longrightarrow> \<not> Alive (snd q)"
    by blast
  have "enemies (fst (fold cleanup_step (p # ps) (w, r)))
          = filter (\<lambda>q. fst q \<notin> D1 \<union> D2) (enemies w)"
    by (simp add: s d2(1) d1(1) conj_commute)
  moreover have "\<forall>q\<in>set (enemies w). fst q \<in> D1 \<union> D2 \<longrightarrow> \<not> Alive (snd q)"
    using d1 d2(2) by auto
  ultimately show ?case by blast
qed


lemma dangling_Cleanup:
  assumes "distinct (map fst (enemies w))" "dangling w i"
  shows "dangling (fst (CleanupDeadEntities w)) i"
proof -
  from cleanup_fold_enemies [OF assms(1), of "entities w" "[]"] obtain D where
    d: "enemies (fst (CleanupDeadEntities w)) = filter (\<lambda>q. fst q \<notin> D) (enemies w)"
    by (auto simp: CleanupDeadEntities_def)
  have "map_of (filter (\<lambda>q. fst q \<notin> D) al) i = (if i \<in> D then None else map_of al i)"
    for al :: "(string \<times> EnemyEntity) list"
    by (induction al) auto
  then show ?thesis
    using assms(2) by (simp add: dangling_def GetEnemy_def d)
qed

lemma keys_ok_lookup:
  assumes "keys_ok al" "e \<in> set (map snd al)"
  shows "map_of al (ID e) = Some e"
proof -
  from assms(2) obtain k where "(k, e) \<in> set al" by auto
  moreover from this assms(1) have "ID e = k" by (auto simp: keys_ok_def)
  ultimately show ?thesis
    using assms(1) by (simp add: keys_ok_def)
qed





lemma dangling_enemies_eq: "enemies w' = enemies w \<Longrightarrow> dangling w' i = dangling w i"
  by (simp add: dangling_def GetEnemy_def)

lemma dangling_update_enemy:
  assumes "dangling w i" "\<And>e. Alive (f e) \<Longrightarrow> Alive e"
  shows "dangling (update_enemy j f w) i"
  using assms
  by (cases "map_of (enemies w) i")
     (auto simp: dangling_def GetEnemy_def map_of_enemies_update_enemy)

lemma dangling_AddEntity:
  assumes "dangling w i" "\<And>e. ent = EnemyE e \<Longrightarrow> ID e \<noteq> i"
  shows "dangling (AddEntity w ent) i"
  using assms by (cases ent) (auto simp: dangling_def GetEnemy_def update_conv')

lemma dangling_movement_step:
  assumes "movement_step pth dt j w = Some w'" "dangling w i"
  shows "dangling w' i"
proof -
  have "w' = w \<or> (\<exists>f. w' = update_enemy j f w \<and> (\<forall>e. Alive (f e) \<longrightarrow> Alive e))"
    using assms(1)
    by (auto simp: movement_step_def Let_def split: option.splits if_splits)
  then show ?thesis
    using assms(2) dangling_update_enemy by blast
qed

lemma dangling_fold_option:
  assumes "fold_option f ids w = Some w'" "dangling w i"
    and "\<And>j w w'. f j w = Some w' \<Longrightarrow> dangling w i \<Longrightarrow> dangling w' i"
  shows "dangling w' i"
  using assms(1,2)
proof (induction ids arbitrary: w)
  case Nil
  then show ?case by simp
next
  case (Cons j ids)
  from Cons.prems(1) obtain w1 where
    w1: "f j w = Some w1" "fold_option f ids w1 = Some w'"
    by (cases "f j w") simp_all
  have "dangling w1 i"
    using w1(1) Cons.prems(2) by (rule assms(3))
  with w1(2) show ?case
    by (rule Cons.IH)
qed

lemma dangling_Movement:
  assumes "MovementSystem_Update pth w dt = Some w'" "dangling w i"
  shows "dangling w' i"
proof -
  have "fold_option (movement_step pth dt) (map ID (GetEnemies w)) w = Some w'"
    using assms(1) by (simp add: MovementSystem_Update_def)
  then show ?thesis
    using assms(2) by (rule dangling_fold_option) (rule dangling_movement_step)
qed

lemma enemies_combat_fold:
  "enemies (fst (fold (combat_step c gen now es) ids acc)) = enemies (fst acc)"
proof (induction ids arbitrary: acc)
  case Nil
  then show ?case by simp
next
  case (Cons j ids)
  obtain w k where acc: "acc = (w, k)" by (cases acc)
  show ?case
    using Cons [of "combat_step c gen now es j (w, k)"] combat_step_enemies [of c gen now es j w k]
    by (simp add: acc)
qed

lemma dangling_Combat:
  "dangling (fst (CombatSystem_Update c gen now (w, k))) i = dangling w i"
  by (rule dangling_enemies_eq) (simp add: CombatSystem_Update_def Let_def enemies_combat_fold)

lemma dangling_Projectile:
  assumes "dangling w i"
  shows "dangling (ProjectileSystem_Update w dt) i"
proof -
  have "dangling (fold (projectile_step dt) ids w) i" for ids
    using assms by (induction ids arbitrary: w) (auto intro: dangling_projectile_step)
  then show ?thesis
    by (simp add: ProjectileSystem_Update_def)
qed

lemma dangling_reward_step:
  assumes "dangling (fst acc) i"
  shows "dangling (fst (reward_step f j acc)) i"
  using assms
  by (cases acc) (auto simp: reward_step_def split: option.splits intro: dangling_update_enemy)

lemma dangling_Reward:
  assumes "dangling w i"
  shows "dangling (fst (RewardSystem_Update f w st)) i"
proof -
  have "dangling (fst (fold (reward_step f) ids acc)) i" if "dangling (fst acc) i" for ids acc
    using that
  proof (induction ids arbitrary: acc)
    case Nil
    then show ?case by simp
  next
    case (Cons j ids)
    have "dangling (fst (reward_step f j acc)) i"
      using Cons.prems by (rule dangling_reward_step)
    then show ?case
      using Cons.IH by simp
  qed
  then show ?thesis
    using assms by (simp add: RewardSystem_Update_def)
qed

lemma cleanup_fold_filter:
  "\<exists>D. enemies (fst (fold cleanup_step ps acc)) = filter (\<lambda>q. fst q \<notin> D) (enemies (fst acc))"
proof (induction ps arbitrary: acc)
  case Nil
  have "enemies (fst (fold cleanup_step [] acc)) = filter (\<lambda>q. fst q \<notin> {}) (enemies (fst acc))"
    by simp
  then show ?case by (rule exI)
next
  case (Cons p ps)
  obtain w r where acc: "acc = (w, r)" by (cases acc)
  have "\<exists>D1. enemies (fst (cleanup_step p (w, r))) = filter (\<lambda>q. fst q \<notin> D1) (enemies w)"
  proof (cases "\<not> IsAlive_stored w (fst p) (snd p) \<and> snd p = EntityTypeEnemy")
    case True
    then have "enemies (fst (cleanup_step p (w, r))) = filter (\<lambda>q. fst q \<notin> {fst p}) (enemies w)"
      by (auto simp: cleanup_step_def enemies_delete_typed AList.delete_eq intro!: filter_cong)
    then show ?thesis by blast
  next
    case False
    then have "enemies (fst (cleanup_step p (w, r))) = filter (\<lambda>q. fst q \<notin> {}) (enemies w)"
      by (auto simp: cleanup_step_def enemies_delete_typed)
    then show ?thesis by blast
  qed
  then obtain D1 where
    d1: "enemies (fst (cleanup_step p (w, r))) = filter (\<lambda>q. fst q \<notin> D1) (enemies w)"
    by blast
  from Cons [of "cleanup_step p (w, r)"] obtain D2 where
    d2: "enemies (fst (fold cleanup_step ps (cleanup_step p (w, r))))
           = filter (\<lambda>q. fst q \<notin> D2) (enemies (fst (cleanup_step p (w, r))))"
    by blast
  have "enemies (fst (fold cleanup_step (p # ps) acc)) = filter (\<lambda>q. fst q \<notin> D1 \<union> D2) (enemies (fst acc))"
    by (simp add: acc d2 d1 conj_commute)
  then show ?case by blast
qed

lemma dangling_Cleanup_any:
  assumes "dangling w i"
  shows "dangling (fst (CleanupDeadEntities w)) i"
proof -
  from cleanup_fold_filter [of "entities w" "(w, [])"] obtain D where
    d: "enemies (fst (CleanupDeadEntities w)) = filter (\<lambda>q. fst q \<notin> D) (enemies w)"
    by (auto simp: CleanupDeadEntities_def)
  have "map_of (filter (\<lambda>q. fst q \<notin> D) al) i = (if i \<in> D then None else map_of al i)"
    for al :: "(string \<times> EnemyEntity) list"
    by (induction al) auto
  then show ?thesis
    using assms by (simp add: dangling_def GetEnemy_def d)
qed

lemma dangling_lifecycle_step:
  assumes "dangling (fst acc) i"
  shows "dangling (fst (lifecycle_step pl f j acc)) i"
  using assms
  by (cases acc) (auto simp: lifecycle_step_def split: option.splits intro: dangling_update_enemy)

lemma dangling_Lifecycle:
  assumes "dangling w i"
  shows "dangling (fst (LifecycleSystem_Update pl f w st)) i"
proof -
  have "dangling (fst (fold (lifecycle_step pl f) ids acc)) i" if "dangling (fst acc) i" for ids acc
    using that
  proof (induction ids arbitrary: acc)
    case Nil
    then show ?case by simp
  next
    case (Cons j ids)
    have "dangling (fst (lifecycle_step pl f j acc)) i"
      using Cons.prems by (rule dangling_lifecycle_step)
    then show ?case
      using Cons.IH by simp
  qed
  from this [of "(w, st)" "map ID (GetEnemies w)"] assms show ?thesis
    by (auto simp: LifecycleSystem_Update_def split: prod.splits intro: dangling_Cleanup_any)
qed

lemma ID_CreateEnemy: "CreateEnemy c uid ty pos wave = Inr e \<Longrightarrow> ID e = uid"
  by (auto simp: CreateEnemy_def Let_def split: sum.splits)

lemma createN_ids:
  assumes "createN c gen pos wave ty n acc = (Inr es, k)" "\<forall>e\<in>set (fst acc). ID e \<in> range gen"
  shows "\<forall>e\<in>set es. ID e \<in> range gen"
  using assms
proof (induction n arbitrary: acc)
  case 0
  then show ?case by simp
next
  case (Suc n)
  show ?case
  proof (cases "CreateEnemy c (gen (snd acc)) ty pos wave")
    case (Inl err)
    then show ?thesis using Suc.prems(1) by simp
  next
    case (Inr enemy)
    have "ID enemy = gen (snd acc)"
      using Inr by (rule ID_CreateEnemy)
    then have ids: "\<forall>e\<in>set (fst (fst acc @ [enemy], Suc (snd acc))). ID e \<in> range gen"
      using Suc.prems(2) by simp
    have "createN c gen pos wave ty n (fst acc @ [enemy], Suc (snd acc)) = (Inr es, k)"
      using Suc.prems(1) Inr by simp
    then show ?thesis
      using ids by (rule Suc.IH)
  qed
qed

lemma createN_if_ids:
  assumes "createN_if c gen pos wave ty n acc = (Inr es, k)" "\<forall>e\<in>set (fst acc). ID e \<in> range gen"
  shows "\<forall>e\<in>set es. ID e \<in> range gen"
proof (cases "n > 0")
  case True
  then have "createN c gen pos wave ty (nat n) acc = (Inr es, k)"
    using assms(1) by (simp add: createN_if_def)
  then show ?thesis
    using assms(2) by (rule createN_ids)
next
  case False
  then have "es = fst acc"
    using assms(1) by (simp add: createN_if_def)
  then show ?thesis
    using assms(2) by simp
qed

lemma createN_if_cases:
  obtains (err) err k' where "createN_if c gen pos wave ty n acc = (Inl err, k')"
        | (ok) es k' where "createN_if c gen pos wave ty n acc = (Inr es, k')"
proof (cases "createN_if c gen pos wave ty n acc")
  case (Pair r k')
  then show ?thesis
    using err ok by (cases r) auto
qed

lemma CreateEnemiesForWave_ids:
  assumes "CreateEnemiesForWave c gen k wave pos = (Inr es, k')"
  shows "\<forall>e\<in>set es. ID e \<in> range gen"
proof -
  let ?comp = "GetWaveComposition c wave"
  show ?thesis
  proof (cases rule: createN_if_cases [of c gen pos wave "''basic''" "Basic ?comp" "([], k)"])
    case (err e k1)
    then show ?thesis using assms by (simp add: CreateEnemiesForWave_def Let_def)
  next
    case (ok e1 k1)
    note s1 = ok
    have 1: "\<forall>e\<in>set e1. ID e \<in> range gen"
      using createN_if_ids [OF s1] by simp
    show ?thesis
    proof (cases rule: createN_if_cases [of c gen pos wave "''fast''" "Fast ?comp" "(e1, k1)"])
      case (err e k2)
      then show ?thesis using assms s1 by (simp add: CreateEnemiesForWave_def Let_def)
    next
      case (ok e2 k2)
      note s2 = ok
      have 2: "\<forall>e\<in>set e2. ID e \<in> range gen"
        using createN_if_ids [OF s2] 1 by simp
      show ?thesis
      proof (cases rule: createN_if_cases [of c gen pos wave "''tank''" "Tank ?comp" "(e2, k2)"])
        case (err e k3)
        then show ?thesis using assms s1 s2 by (simp add: CreateEnemiesForWave_def Let_def)
      next
        case (ok e3 k3)
        note s3 = ok
        have 3: "\<forall>e\<in>set e3. ID e \<in> range gen"
          using createN_if_ids [OF s3] 2 by simp
        show ?thesis
        proof (cases rule: createN_if_cases [of c gen pos wave "''boss''" "Boss ?comp" "(e3, k3)"])
          case (err e k4)
          then show ?thesis using assms s1 s2 s3 by (simp add: CreateEnemiesForWave_def Let_def)
        next
          case (ok e4 k4)
          have 4: "\<forall>e\<in>set e4. ID e \<in> range gen"
            using createN_if_ids [OF ok] 3 by simp
          have "es = e4"
            using assms s1 s2 s3 ok
            by (simp add: CreateEnemiesForWave_def Let_def split: if_splits)
          then show ?thesis using 4 by simp
        qed
      qed
    qed
  qed
qed

lemma dangling_spawnWave:
  assumes "dangling w i" "i \<notin> range gen"
  shows "dangling (fst (snd (spawnWave c gen rand now (s, w, k)))) i"
proof (cases "CreateEnemiesForWave c gen k (currentWave s + 1) (startPos s)")
  case (Pair r k1)
  show ?thesis
  proof (cases r)
    case (Inl err)
    then show ?thesis
      using Pair assms(1) by (simp add: spawnWave_def Let_def)
  next
    case (Inr batch)
    show ?thesis
    proof (cases batch)
      case Nil
      then show ?thesis
        using Pair Inr assms(1) by (simp add: spawnWave_def Let_def)
    next
      case (Cons e0 rest)
      have "ID e0 \<in> range gen"
        using CreateEnemiesForWave_ids [of c gen k "currentWave s + 1" "startPos s" batch k1]
          Pair Inr Cons by simp
      then have "ID e0 \<noteq> i"
        using assms(2) by auto
      then have "dangling (AddEntity w (EnemyE e0)) i"
        using assms(1) by (intro dangling_AddEntity) auto
      then show ?thesis
        using Pair Inr Cons by (simp add: spawnWave_def Let_def del: AddEntity.simps)
    qed
  qed
qed

lemma dangling_spawnNextEnemy:
  assumes "spawnNextEnemy c gen rand acc = Some acc'" "dangling (fst (snd acc)) i" "i \<notin> range gen"
  shows "dangling (fst (snd acc')) i"
proof -
  obtain s w k where acc: "acc = (s, w, k)" by (cases acc)
  have "fst (snd acc') = w \<or> (\<exists>e. fst (snd acc') = AddEntity w (EnemyE e) \<and> ID e = gen k)"
  proof (cases "remainingInWave s \<le> 0")
    case True
    then show ?thesis
      using assms(1) unfolding acc by (auto simp: spawnNextEnemy_def simp del: AddEntity.simps)
  next
    case False
    then obtain ty s1 where
      sel: "selectEnemyType rand s (GetWaveComposition c (currentWave s)) = Some (ty, s1)"
      using assms(1) unfolding acc
      by (auto simp: spawnNextEnemy_def Let_def split: option.splits)
    show ?thesis
    proof (cases "CreateEnemy c (gen k) ty (startPos s1) (currentWave s1)")
      case (Inl err)
      then show ?thesis
        using assms(1) False sel unfolding acc by (auto simp: spawnNextEnemy_def Let_def)
    next
      case (Inr e)
      then have "fst (snd acc') = AddEntity w (EnemyE e)"
        using assms(1) False sel unfolding acc
        by (auto simp: spawnNextEnemy_def Let_def simp del: AddEntity.simps)
      moreover have "ID e = gen k"
        using Inr by (rule ID_CreateEnemy)
      ultimately show ?thesis by blast
    qed
  qed
  then show ?thesis
    using assms(2,3) unfolding acc
    by (auto intro!: dangling_AddEntity simp del: AddEntity.simps)
qed

lemma dangling_drip_loop:
  assumes "drip_loop c gen rand now acc = Some acc'" "dangling (fst (snd acc)) i" "i \<notin> range gen"
  shows "dangling (fst (snd acc')) i"
  using assms
proof (induction c gen rand now acc rule: drip_loop.induct)
  case (1 c gen rand now acc)
  show ?case
  proof (cases "remainingInWave (fst acc) > 0 \<and> now > nextEnemySpawn (fst acc)")
    case False
    then have "acc' = acc"
      using "1.prems"(1) by (subst (asm) drip_loop.simps) auto
    then show ?thesis using "1.prems"(2) by simp
  next
    case True
    then obtain acc1 where a1: "spawnNextEnemy c gen rand acc = Some acc1"
      using "1.prems"(1) by (subst (asm) drip_loop.simps) (auto split: option.splits)
    let ?ds = "nextSpawnDelay rand (fst acc1)"
    have rec: "drip_loop c gen rand now ((snd ?ds)\<lparr>nextEnemySpawn := now + fst ?ds\<rparr>, snd acc1)
                 = Some acc'"
      using "1.prems"(1) True a1 by (subst (asm) drip_loop.simps) (simp add: Let_def)
    have d1: "dangling (fst (snd acc1)) i"
      using a1 "1.prems"(2,3) by (rule dangling_spawnNextEnemy)
    show ?thesis
      using "1.IH" [OF True a1 refl rec] d1 "1.prems"(3) by simp
  qed
qed

lemma dangling_Wave:
  assumes "WaveSystem_Update c gen rand now ns (s, w, k) = Some acc'" "dangling w i" "i \<notin> range gen"
  shows "dangling (fst (snd acc')) i"
proof -
  let ?acc1 = "(if remainingInWave s = 0 \<and> now - lastWaveTime s > waveInterval s
             then (case spawnWave c gen rand ns (s, w, k) of
                     (s1, rest) \<Rightarrow> (s1\<lparr>lastWaveTime := now\<rparr>, rest))
             else (s, w, k))"
  have "dangling (fst (snd ?acc1)) i"
    using dangling_spawnWave [OF assms(2,3), of c rand ns s k] assms(2)
    by (auto split: prod.splits)
  moreover have "drip_loop c gen rand now ?acc1 = Some acc'"
    using assms(1) by (simp add: WaveSystem_Update_def Let_def)
  ultimately show ?thesis
    using assms(3) dangling_drip_loop by blast
qed

lemma dangling_Game_Update:
  assumes "Game_Update gen rand now ns g = Some g'" "dangling (world g) i" "i \<notin> range gen"
  shows "dangling (world g') i"
proof (cases "GameOver (state g)")
  case True
  then show ?thesis using assms by (simp add: Game_Update_def)
next
  case False
  let ?dt0 = "Seconds (now - lastUpdate g)"
  let ?dt1 = "if ?dt0 < 0 then 0 else ?dt0"
  let ?dt = "if ?dt1 > 0.05 then 0.05 else ?dt1"
  let ?st0 = "(state g)\<lparr>Wave := currentWave (waveSystem g)\<rparr>"
  from assms(1) False obtain ws w1 k1 w2 where
    wv: "WaveSystem_Update (config g) gen rand now ns (waveSystem g, world g, uuidPos g)
           = Some (ws, w1, k1)"
    and mv: "MovementSystem_Update (path g) w1 ?dt = Some w2"
    by (auto simp: Game_Update_def Let_def split: option.splits prod.splits)
  obtain w3 k3 where cb: "CombatSystem_Update (config g) gen now (w2, k1) = (w3, k3)"
    by (cases "CombatSystem_Update (config g) gen now (w2, k1)")
  let ?w4 = "ProjectileSystem_Update w3 ?dt"
  obtain w5 st5 where rw: "RewardSystem_Update (Some onReward) ?w4 ?st0 = (w5, st5)"
    by (cases "RewardSystem_Update (Some onReward) ?w4 ?st0")
  obtain w6 st6 where lc: "LifecycleSystem_Update (pathLength g) (Some onLifeLost) w5 st5 = (w6, st6)"
    by (cases "LifecycleSystem_Update (pathLength g) (Some onLifeLost) w5 st5")
  have g': "world g' = w6"
    using assms(1) False wv mv cb rw lc by (auto simp: Game_Update_def Let_def)
  have "dangling w1 i"
    using dangling_Wave [OF wv assms(2,3)] by simp
  then have "dangling w2 i"
    using mv dangling_Movement by blast
  then have "dangling w3 i"
    using dangling_Combat [of "config g" gen now w2 k1 i] cb by simp
  then have "dangling ?w4 i"
    by (rule dangling_Projectile)
  then have "dangling w5 i"
    using dangling_Reward [of ?w4 i "Some onReward" ?st0] rw by simp
  then have "dangling w6 i"
    using dangling_Lifecycle [of w5 i "pathLength g" "Some onLifeLost" st5] lc by simp
  then show ?thesis
    by (simp add: g')
qed


text \<open>
  Claim C5. \<open>AddTower\<close> returns an error in exactly three cases (unknown archetype, gold
  below the cost, invalid placement) and then leaves the whole game as it was. When it
  returns no error, the game differs by one \<open>AddEntity\<close> of the created tower and by
  gold lowered by the archetype's cost (and the identifier counter of the model); with the
  fresh identifier that \<open>uuid.New()\<close> returns, the tower map grows by exactly that
  tower and the tower count by one.
\<close>

theorem AddTower_all_or_nothing:
  assumes r: "AddTower gen now g towerType x y = (res, g')"
  shows "(res \<noteq> None \<longrightarrow> g' = g)
       \<and> (res = Some (UnknownTowerType towerType) \<longleftrightarrow>
            GameConfig.Towers (config g) towerType = None)
       \<and> (res = Some ErrNotEnoughGold \<longleftrightarrow>
            (\<exists>cfg. GameConfig.Towers (config g) towerType = Some cfg \<and> Gold (state g) < Cost cfg))
       \<and> (res = Some ErrInvalidPlacement \<longleftrightarrow>
            (\<exists>cfg. GameConfig.Towers (config g) towerType = Some cfg \<and> \<not> Gold (state g) < Cost cfg
                   \<and> \<not> isValidPlacement g \<lparr>X = x, Y = y\<rparr>))
       \<and> (res = None \<longleftrightarrow>
            (\<exists>cfg. GameConfig.Towers (config g) towerType = Some cfg \<and> \<not> Gold (state g) < Cost cfg
                   \<and> isValidPlacement g \<lparr>X = x, Y = y\<rparr>))
       \<and> (res = None \<longrightarrow>
            (\<exists>cfg tower.
               GameConfig.Towers (config g) towerType = Some cfg
             \<and> CreateTower (config g) (gen (uuidPos g)) now towerType \<lparr>X = x, Y = y\<rparr> = Inr tower
             \<and> g' = g\<lparr>world := AddEntity (world g) (TowerE tower),
                       state := (state g)\<lparr>Gold := Gold (state g) - Cost cfg\<rparr>,
                       uuidPos := Suc (uuidPos g)\<rparr>
             \<and> enemies (world g') = enemies (world g)
             \<and> projectiles (world g') = projectiles (world g)
             \<and> (gen (uuidPos g) \<notin> fst ` set (towers (world g)) \<longrightarrow>
                  towers (world g') = towers (world g) @ [(gen (uuidPos g), tower)]
                  \<and> TowerCount (world g') = TowerCount (world g) + 1)))"
proof (cases "GameConfig.Towers (config g) towerType")
  case None
  then show ?thesis
    using r by (auto simp: AddTower_def GetTowerConfig_def)
next
  case (Some cfg)
  then have ct: "CreateTower (config g) uid now towerType pos =
      Inr \<lparr>ID = uid, Type = EntityTypeTower, Position = pos, Alive = True,
           TowerType = towerType, Range = TowerConfig.Range cfg, Damage = TowerConfig.Damage cfg,
           FireRate = TowerConfig.FireRate cfg, SplashRadius = TowerConfig.SplashRadius cfg,
           LastShot = now - Hour\<rparr>" for uid pos
    by (simp add: CreateTower_def GetTowerConfig_def)
  show ?thesis
    using r Some
    by (auto simp: AddTower_def GetTowerConfig_def ct Let_def TowerCount_def update_fresh
        split: if_splits)
qed

lemma dist_P1: "distanceToSegment \<lparr>X = 50, Y = 100\<rparr> \<lparr>X = 0, Y = 0\<rparr> \<lparr>X = 100, Y = 0\<rparr> = 10000"
  by (simp add: distanceToSegment_def Let_def)

lemma dist_P2: "distanceToSegment \<lparr>X = 150, Y = 100\<rparr> \<lparr>X = 0, Y = 0\<rparr> \<lparr>X = 100, Y = 0\<rparr> = 12500"
  by (simp add: distanceToSegment_def Let_def)

lemma gameP1_eq:
  "gameP1 = gameP\<lparr>world := AddEntity NewWorld (TowerE (towerP ''uuid-'' \<lparr>X = 50, Y = 100\<rparr>)),
                  state := \<lparr>Wave = 0, Gold = 50, Lives = 20, Score = 0, GameOver = False\<rparr>,
                  uuidPos := 1\<rparr>"
proof -
  have v: "isValidPlacement gameP \<lparr>X = 50, Y = 100\<rparr>"
    by (simp add: isValidPlacement_def gameP_fields cfgA_fields dist_P1 TowerCount_def NewWorld_def
        GetTowers_def)
  show ?thesis
    using v by (simp add: gameP1_def AddTower_def gameP_fields cfgA_fields CreateTower_A
        uuidA_simps Let_def)
qed

lemma gameP1_fields:
  "config gameP1 = cfgA" "path gameP1 = [\<lparr>X = 0, Y = 0\<rparr>, \<lparr>X = 100, Y = 0\<rparr>]"
  "state gameP1 = \<lparr>Wave = 0, Gold = 50, Lives = 20, Score = 0, GameOver = False\<rparr>"
  "uuidPos gameP1 = 1"
  "towers (world gameP1) = [(''uuid-'', towerP ''uuid-'' \<lparr>X = 50, Y = 100\<rparr>)]"
  by (simp_all add: gameP1_eq gameP_fields NewWorld_def towerP_def)

theorem save_load_round_trip_witness:
  "fst (LoadFromState Some 7 gameP1 (SaveState (\<lambda>s. s) gameR)) = None
   \<and> mset (Towers (GetState gameP1)) = {#convertTower (towerP ''uuid-'' \<lparr>X = 50, Y = 100\<rparr>)#}
   \<and> mset (Enemies (GetState gameP1)) = {#}
   \<and> GameStateSnapshot.Gold (GetState gameP1) = 50
   \<and> mset (Towers (GetState (snd (LoadFromState Some 7 gameP1 (SaveState (\<lambda>s. s) gameR)))))
       = {#convertTower (towerP ''t1'' \<lparr>X = 50, Y = 100\<rparr>)#}
   \<and> mset (Enemies (GetState (snd (LoadFromState Some 7 gameP1 (SaveState (\<lambda>s. s) gameR)))))
       = {#convertEnemy enemyA#}
   \<and> mset (Projectiles (GetState (snd (LoadFromState Some 7 gameP1 (SaveState (\<lambda>s. s) gameR)))))
       = {#convertProjectile projA#}
   \<and> GameStateSnapshot.Gold (GetState (snd (LoadFromState Some 7 gameP1 (SaveState (\<lambda>s. s) gameR))))
       = 100"
proof -
  have c: "Some ((\<lambda>s. s) (GetState gameR)) = Some (GetState gameR)"
    by simp
  have g: "GetState gameR =
      \<lparr>Towers = [convertTower (towerP ''t1'' \<lparr>X = 50, Y = 100\<rparr>)],
       Enemies = [convertEnemy enemyA], Projectiles = [convertProjectile projA],
       Wave = 0, Gold = 100, Lives = 20, Score = 0, GameOver = False,
       Path = [], MapWidth = 0, MapHeight = 0\<rparr>"
    by (simp add: GetState_def gameR_def gameA_def NewGame_def cfgA_def worldA_simp
        convertTowers_def convertEnemies_def convertProjectiles_def GetTowers_def GetEnemies_def
        GetProjectiles_def towerP_def enemyA_def projA_def)
  have p1: "mset (Towers (GetState gameP1)) = {#convertTower (towerP ''uuid-'' \<lparr>X = 50, Y = 100\<rparr>)#}
     \<and> mset (Enemies (GetState gameP1)) = {#}
     \<and> GameStateSnapshot.Gold (GetState gameP1) = 50"
    by (simp add: GetState_def gameP1_eq gameP_fields NewWorld_def convertTowers_def
        convertEnemies_def GetTowers_def GetEnemies_def towerP_def)
  show ?thesis
    using save_load_round_trip [where g = gameR and ?g2.0 = gameP1 and unmarshal = Some
        and marshal = "\<lambda>s. s" and now = 7, OF world_inv_gameR c] p1
    by (simp add: g)
qed

lemma valid_P2: "isValidPlacement gameP1 \<lparr>X = 150, Y = 100\<rparr>"
  by (simp add: isValidPlacement_def gameP1_fields cfgA_fields dist_P2 TowerCount_def
      GetTowers_def towerP_def)

theorem AddTower_all_or_nothing_witness:
  "fst (AddTower uuidA 0 gameP1 ''basic'' 150 100) = None
   \<and> Gold (state gameP1) = 50
   \<and> Gold (state gameP2) = 0
   \<and> TowerCount (world gameP2) = TowerCount (world gameP1) + 1
   \<and> AddTower uuidA 0 gameP2 ''basic'' 250 100 = (Some ErrNotEnoughGold, gameP2)
   \<and> AddTower uuidA 0 gameP2 ''sniper'' 250 100 = (Some (UnknownTowerType ''sniper''), gameP2)
   \<and> AddTower uuidA 0 gameP ''basic'' 50 0 = (Some ErrInvalidPlacement, gameP)"
proof -
  have t: "GameConfig.Towers cfgA ''basic''
             = Some \<lparr>Cost = 50, Range = 100, Damage = 10, FireRate = 1, SplashRadius = 0\<rparr>"
    "GameConfig.Towers cfgA ''sniper'' = None"
    by (simp_all add: cfgA_def)
  have fresh: "uuidA (uuidPos gameP1) \<notin> fst ` set (towers (world gameP1))"
    by (simp add: gameP1_fields uuidA_simps)
  have a: "AddTower uuidA 0 gameP1 ''basic'' 150 100
             = (fst (AddTower uuidA 0 gameP1 ''basic'' 150 100), gameP2)"
    by (simp add: gameP2_def)
  have ok: "fst (AddTower uuidA 0 gameP1 ''basic'' 150 100) = None"
    using AddTower_all_or_nothing [OF a] valid_P2 by (simp add: gameP1_fields t)
  from AddTower_all_or_nothing [OF a] ok obtain cfg tower where
    h: "GameConfig.Towers (config gameP1) ''basic'' = Some cfg"
       "gameP2 = gameP1\<lparr>world := AddEntity (world gameP1) (TowerE tower),
                        state := (state gameP1)\<lparr>Gold := Gold (state gameP1) - Cost cfg\<rparr>,
                        uuidPos := Suc (uuidPos gameP1)\<rparr>"
       "uuidA (uuidPos gameP1) \<notin> fst ` set (towers (world gameP1)) \<longrightarrow>
          towers (world gameP2) = towers (world gameP1) @ [(uuidA (uuidPos gameP1), tower)]
          \<and> TowerCount (world gameP2) = TowerCount (world gameP1) + 1"
    by blast
  have cost: "Cost cfg = 50"
    using h(1) by (auto simp: gameP1_fields t)
  have "Gold (state gameP2) = 0 \<and> config gameP2 = cfgA"
    by (subst (1 2) h(2)) (simp add: gameP1_fields cost)
  then have s2: "Gold (state gameP2) = 0 \<and> TowerCount (world gameP2) = TowerCount (world gameP1) + 1
            \<and> config gameP2 = cfgA"
    using h(3) fresh by simp
  have b: "AddTower uuidA 0 gameP2 ''basic'' 250 100
             = (fst (AddTower uuidA 0 gameP2 ''basic'' 250 100),
                snd (AddTower uuidA 0 gameP2 ''basic'' 250 100))"
    by simp
  have e1: "AddTower uuidA 0 gameP2 ''basic'' 250 100 = (Some ErrNotEnoughGold, gameP2)"
    using AddTower_all_or_nothing [OF b] s2 by (auto simp: t prod_eq_iff)
  have c: "AddTower uuidA 0 gameP2 ''sniper'' 250 100
             = (fst (AddTower uuidA 0 gameP2 ''sniper'' 250 100),
                snd (AddTower uuidA 0 gameP2 ''sniper'' 250 100))"
    by simp
  have e2: "AddTower uuidA 0 gameP2 ''sniper'' 250 100 = (Some (UnknownTowerType ''sniper''), gameP2)"
    using AddTower_all_or_nothing [OF c] s2 by (auto simp: t prod_eq_iff)
  have d: "AddTower uuidA 0 gameP ''basic'' 50 0
             = (fst (AddTower uuidA 0 gameP ''basic'' 50 0),
                snd (AddTower uuidA 0 gameP ''basic'' 50 0))"
    by simp
  have inval: "\<not> isValidPlacement gameP \<lparr>X = 50, Y = 0\<rparr>"
    by (simp add: isValidPlacement_def gameP_fields cfgA_fields distanceToSegment_def Let_def
        TowerCount_def NewWorld_def)
  have e3: "AddTower uuidA 0 gameP ''basic'' 50 0 = (Some ErrInvalidPlacement, gameP)"
    using AddTower_all_or_nothing [OF d] inval by (auto simp: t gameP_fields prod_eq_iff)
  show ?thesis
    using ok s2 e1 e2 e3 by (simp add: gameP1_fields)
qed




lemma combat_fold_projectiles:
  assumes "distinct (map ID ts)" "\<forall>t\<in>set ts. map_of (towers w) (ID t) = Some t"
  shows "projectiles (fst (fold (combat_step c gen now es) (map ID ts) (w, k)))
           = fold (\<lambda>p. AList.update (ID p) p) (spawned c gen now es ts k) (projectiles w)"
  using assms
proof (induction ts arbitrary: w k)
  case Nil
  then show ?case by simp
next
  case (Cons t ts)
  have lt: "map_of (towers w) (ID t) = Some t"
    using Cons.prems(2) by simp
  obtain w1 k1 where s: "combat_step c gen now es (ID t) (w, k) = (w1, k1)"
    by (cases "combat_step c gen now es (ID t) (w, k)")
  have rest: "\<forall>t'\<in>set ts. map_of (towers w1) (ID t') = Some t'"
  proof
    fix t' assume t': "t' \<in> set ts"
    then have "ID t' \<in> ID ` set ts"
      by (rule imageI)
    then have "ID t' \<noteq> ID t"
      using Cons.prems(1) by auto
    then show "map_of (towers w1) (ID t') = Some t'"
      using combat_step_towers [of c gen now es "ID t" w k "ID t'"] s Cons.prems(2) t' by simp
  qed
  have d: "distinct (map ID ts)"
    using Cons.prems(1) by simp
  have ih: "projectiles (fst (fold (combat_step c gen now es) (map ID ts) (w1, k1)))
           = fold (\<lambda>p. AList.update (ID p) p) (spawned c gen now es ts k1) (projectiles w1)"
    using Cons.IH [OF d rest] .
  have step: "fold (combat_step c gen now es) (map ID (t # ts)) (w, k)
                = fold (combat_step c gen now es) (map ID ts) (w1, k1)"
    by (simp add: s)
  have w1: "(w1, k1) =
     (if Alive t \<and> CanShoot t now
      then (case nearest_in_range t es of
              None \<Rightarrow> (w, k)
            | Some target \<Rightarrow>
                (case GameConfig.Projectiles c (projType_of t) of
                   None \<Rightarrow> (w, k)
                 | Some pc \<Rightarrow>
                     (update_tower (ID t) (\<lambda>t. t\<lparr>LastShot := now\<rparr>)
                        (AddEntity w (ProjectileE (fired_projectile (gen k) t target pc))),
                      Suc k)))
      else (w, k))"
    using combat_step_eq [OF lt, of c gen now es k] s by simp
  have "fold (\<lambda>p. AList.update (ID p) p) (spawned c gen now es ts k1) (projectiles w1)
      = fold (\<lambda>p. AList.update (ID p) p) (spawned c gen now es (t # ts) k) (projectiles w)"
    using w1 by (auto simp: update_tower_def fired_projectile_def split: option.splits if_splits)
  then show ?case
    unfolding step ih .
qed

lemma fires_spawned_length:
  "length (spawned c gen now es ts k) = length (filter (fires c now es) ts)"
  by (induction ts arbitrary: k) (auto simp: fires_def split: option.splits)

lemma GetTowers_lookup:
  assumes "keys_ok (towers w)" "t \<in> set (GetTowers w)"
  shows "map_of (towers w) (ID t) = Some t"
  using assms keys_ok_lookup [of "towers w" t] by (simp add: GetTowers_def)

lemma keys_ok_map_of_ID:
  assumes "keys_ok al" "map_of al i = Some e"
  shows "ID e = i"
  using assms by (auto simp: keys_ok_def dest!: map_of_SomeD)

text \<open>
  Claim C8, amended. The loop body of the combat stage, for a tower stored in the world:
  when the tower is alive, its fire rate is not zero and \<open>1 / fire-rate\<close> seconds have
  passed since its last shot, it looks for the nearest alive enemy at a distance strictly
  below its range, the first one in the order of iteration among those at the least
  distance. When there is one and the configuration holds the projectile archetype of the
  tower's kind, one projectile is added (at the tower's position, aimed at that enemy, with
  the tower's damage and splash radius) and the tower's last shot becomes \<open>now\<close>. In
  every other case the world is left as it was. For the whole stage: the tower's last shot
  is reset exactly when it fires, the projectile map receives exactly the projectiles of
  the towers that fire, one each, and the enemies are untouched.
\<close>

theorem tower_fires_at_nearest:
  assumes inv: "keys_ok (towers w)"
    and tw: "map_of (towers w) i = Some tower"
  shows "combat_step c gen now es i (w, k) =
           (if Alive tower \<and> TowerEntity.FireRate tower \<noteq> 0
               \<and> Seconds (now - LastShot tower) \<ge> 1 / TowerEntity.FireRate tower
            then (case nearest_in_range tower es of
                    None \<Rightarrow> (w, k)
                  | Some target \<Rightarrow>
                      (case GameConfig.Projectiles c (projType_of tower) of
                         None \<Rightarrow> (w, k)
                       | Some pc \<Rightarrow>
                           (update_tower i (\<lambda>t. t\<lparr>LastShot := now\<rparr>)
                              (AddEntity w (ProjectileE (fired_projectile (gen k) tower target pc))),
                            Suc k)))
            else (w, k))
       \<and> (nearest_in_range tower es = None \<longleftrightarrow>
            (\<forall>e\<in>set es. Alive e \<longrightarrow> TowerEntity.Range tower \<le> tower_dist tower e))
       \<and> (\<forall>target. nearest_in_range tower es = Some target \<longrightarrow>
            target \<in> set es \<and> Alive target
            \<and> tower_dist tower target < TowerEntity.Range tower
            \<and> (\<forall>e\<in>set es. Alive e \<longrightarrow> tower_dist tower target \<le> tower_dist tower e)
            \<and> (\<exists>pre post. es = pre @ target # post
                  \<and> (\<forall>x\<in>set pre. Alive x \<longrightarrow> tower_dist tower target < tower_dist tower x)))
       \<and> map_of (towers (fst (CombatSystem_Update c gen now (w, k)))) i =
           Some (if fires c now (GetEnemies w) tower then tower\<lparr>LastShot := now\<rparr> else tower)
       \<and> projectiles (fst (CombatSystem_Update c gen now (w, k))) =
           fold (\<lambda>p. AList.update (ID p) p)
             (spawned c gen now (GetEnemies w) (GetTowers w) k) (projectiles w)
       \<and> enemies (fst (CombatSystem_Update c gen now (w, k))) = enemies w
       \<and> snd (CombatSystem_Update c gen now (w, k)) =
           k + length (filter (fires c now (GetEnemies w)) (GetTowers w))"
proof -
  let ?ts = "GetTowers w"
  let ?es = "GetEnemies w"
  have step: "combat_step c gen now es i (w, k) =
           (if Alive tower \<and> TowerEntity.FireRate tower \<noteq> 0
               \<and> Seconds (now - LastShot tower) \<ge> 1 / TowerEntity.FireRate tower
            then (case nearest_in_range tower es of
                    None \<Rightarrow> (w, k)
                  | Some target \<Rightarrow>
                      (case GameConfig.Projectiles c (projType_of tower) of
                         None \<Rightarrow> (w, k)
                       | Some pc \<Rightarrow>
                           (update_tower i (\<lambda>t. t\<lparr>LastShot := now\<rparr>)
                              (AddEntity w (ProjectileE (fired_projectile (gen k) tower target pc))),
                            Suc k)))
            else (w, k))"
    unfolding combat_step_eq [OF tw] by (simp add: CanShoot_elapsed)
  have none: "nearest_in_range tower es = None \<longleftrightarrow>
            (\<forall>e\<in>set es. Alive e \<longrightarrow> TowerEntity.Range tower \<le> tower_dist tower e)"
    by (rule nearest_in_range_None)
  have some: "\<forall>target. nearest_in_range tower es = Some target \<longrightarrow>
            target \<in> set es \<and> Alive target
            \<and> tower_dist tower target < TowerEntity.Range tower
            \<and> (\<forall>e\<in>set es. Alive e \<longrightarrow> tower_dist tower target \<le> tower_dist tower e)
            \<and> (\<exists>pre post. es = pre @ target # post
                  \<and> (\<forall>x\<in>set pre. Alive x \<longrightarrow> tower_dist tower target < tower_dist tower x))"
    using nearest_in_range_Some [of tower es] nearest_in_range_first [of tower es] by blast
  have d: "distinct (map ID ?ts)"
    using keys_ok_alive_ids [OF inv] by (simp add: GetTowers_def)
  have lk: "\<forall>t\<in>set ?ts. map_of (towers w) (ID t) = Some t"
    using GetTowers_lookup [OF inv] by blast
  have idt: "ID tower = i"
    using inv tw by (rule keys_ok_map_of_ID)
  have mem: "i \<in> set (map ID ?ts) \<longleftrightarrow> Alive tower"
  proof
    assume "i \<in> set (map ID ?ts)"
    then obtain t where t: "t \<in> set ?ts" "ID t = i" by auto
    then have "map_of (towers w) i = Some t" using lk by auto
    then have "t = tower" using tw by simp
    then show "Alive tower" using t(1) by (simp add: GetTowers_def)
  next
    assume a: "Alive tower"
    have "tower \<in> snd ` set (towers w)"
      using map_of_SomeD [OF tw] by force
    then have "tower \<in> set ?ts"
      using a by (simp add: GetTowers_def)
    then show "i \<in> set (map ID ?ts)"
      using idt by force
  qed
  note cf = combat_fold [OF d, of c gen now ?es w k i]
  have tower': "map_of (towers (fst (CombatSystem_Update c gen now (w, k)))) i =
           Some (if fires c now ?es tower then tower\<lparr>LastShot := now\<rparr> else tower)"
    using cf mem tw by (auto simp: CombatSystem_Update_def Let_def Shoot_def fires_def)
  have projs: "projectiles (fst (CombatSystem_Update c gen now (w, k))) =
           fold (\<lambda>p. AList.update (ID p) p) (spawned c gen now ?es ?ts k) (projectiles w)"
    using combat_fold_projectiles [OF d lk, of c gen now ?es k]
    by (simp add: CombatSystem_Update_def Let_def)
  have en: "enemies (fst (CombatSystem_Update c gen now (w, k))) = enemies w"
    using cf by (simp add: CombatSystem_Update_def Let_def)
  have "filter (\<lambda>t. case map_of (towers w) (ID t) of None \<Rightarrow> False | Some t \<Rightarrow> fires c now ?es t) ?ts
          = filter (fires c now ?es) ?ts"
    using lk by (intro filter_cong) auto
  then have "filter (\<lambda>i. case map_of (towers w) i of None \<Rightarrow> False | Some t \<Rightarrow> fires c now ?es t)
          (map ID ?ts) = map ID (filter (fires c now ?es) ?ts)"
    by (simp add: filter_map comp_def)
  then have cnt: "snd (CombatSystem_Update c gen now (w, k)) =
           k + length (filter (fires c now ?es) ?ts)"
    using cf by (simp add: CombatSystem_Update_def Let_def)
  show ?thesis
    using step none some tower' projs en cnt by (intro conjI)
qed

lemma sqrt_3600: "sqrt 3600 = 60"
  by (rule real_sqrt_unique) simp_all

lemma sqrt_2500: "sqrt 2500 = 50"
  by (rule real_sqrt_unique) simp_all

lemma sqrt_40000: "sqrt 40000 = 200"
  by (rule real_sqrt_unique) simp_all

lemma tower_dist_C:
  "tower_dist (towerP i \<lparr>X = 0, Y = 0\<rparr>) (enemyC ''e1'' \<lparr>X = 60, Y = 0\<rparr> a) = 60"
  "tower_dist (towerP i \<lparr>X = 0, Y = 0\<rparr>) (enemyC ''e2'' \<lparr>X = 30, Y = 40\<rparr> a) = 50"
  "tower_dist (towerP i \<lparr>X = 0, Y = 0\<rparr>) (enemyC ''e3'' \<lparr>X = 50, Y = 0\<rparr> a) = 50"
  "tower_dist (towerP i \<lparr>X = 0, Y = 0\<rparr>) (enemyC ''e4'' \<lparr>X = 1, Y = 0\<rparr> a) = 1"
  "tower_dist (towerP i \<lparr>X = 0, Y = 0\<rparr>) (enemyC ''e5'' \<lparr>X = 200, Y = 0\<rparr> a) = 200"
  by (simp_all add: tower_dist_def towerP_def enemyC_def basicA_def sqrt_3600 sqrt_2500 sqrt_40000)

lemma Alive_enemyC [simp]: "Alive (enemyC u pos a) = a"
  by (simp add: enemyC_def)

lemma ID_enemyC [simp]: "ID (enemyC u pos a) = u"
  by (simp add: enemyC_def basicA_def)

lemma Range_towerP [simp]: "TowerEntity.Range (towerP i pos) = 100"
  by (simp add: towerP_def)

lemma nearest_C:
  "nearest_in_range (towerP ''t1'' \<lparr>X = 0, Y = 0\<rparr>) enemiesC
     = Some (enemyC ''e2'' \<lparr>X = 30, Y = 40\<rparr> True)"
  by (simp add: nearest_in_range_def enemiesC_def tower_dist_C Let_def)

lemma GetEnemies_worldC:
  "GetEnemies worldC =
     [enemyC ''e1'' \<lparr>X = 60, Y = 0\<rparr> True, enemyC ''e2'' \<lparr>X = 30, Y = 40\<rparr> True,
      enemyC ''e3'' \<lparr>X = 50, Y = 0\<rparr> True, enemyC ''e5'' \<lparr>X = 200, Y = 0\<rparr> True]"
  by (simp add: GetEnemies_def worldC_def enemiesC_def)

lemma nearest_C_alive:
  "nearest_in_range (towerP ''t1'' \<lparr>X = 0, Y = 0\<rparr>) (GetEnemies worldC)
     = Some (enemyC ''e2'' \<lparr>X = 30, Y = 40\<rparr> True)"
  by (simp add: nearest_in_range_def GetEnemies_worldC tower_dist_C Let_def)

lemma GetTowers_worldC: "GetTowers worldC = [towerP ''t1'' \<lparr>X = 0, Y = 0\<rparr>]"
  by (simp add: GetTowers_def worldC_def towerP_def)

lemma keys_ok_worldC: "keys_ok (towers worldC)"
  by (simp add: keys_ok_def worldC_def towerP_def)

lemma CanShoot_towerP: "CanShoot (towerP i pos) 0"
  by (simp add: CanShoot_def towerP_def Seconds_def Hour_def Second_def Let_def)

theorem tower_fires_at_nearest_witness:
  "combat_step cfgA uuidA 0 enemiesC ''t1'' (worldC, 0) =
     (update_tower ''t1'' (\<lambda>t. t\<lparr>LastShot := 0\<rparr>)
        (AddEntity worldC
           (ProjectileE (fired_projectile ''uuid-'' (towerP ''t1'' \<lparr>X = 0, Y = 0\<rparr>)
              (enemyC ''e2'' \<lparr>X = 30, Y = 40\<rparr> True) \<lparr>ProjectileConfig.Speed = 5\<rparr>))),
      1)
   \<and> nearest_in_range (towerP ''t1'' \<lparr>X = 0, Y = 0\<rparr>) enemiesC
       = Some (enemyC ''e2'' \<lparr>X = 30, Y = 40\<rparr> True)
   \<and> tower_dist (towerP ''t1'' \<lparr>X = 0, Y = 0\<rparr>) (enemyC ''e2'' \<lparr>X = 30, Y = 40\<rparr> True) = 50
   \<and> tower_dist (towerP ''t1'' \<lparr>X = 0, Y = 0\<rparr>) (enemyC ''e3'' \<lparr>X = 50, Y = 0\<rparr> True) = 50
   \<and> map_of (towers (fst (CombatSystem_Update cfgA uuidA 0 (worldC, 0)))) ''t1''
       = Some ((towerP ''t1'' \<lparr>X = 0, Y = 0\<rparr>)\<lparr>LastShot := 0\<rparr>)
   \<and> projectiles (fst (CombatSystem_Update cfgA uuidA 0 (worldC, 0))) =
       [(''uuid-'',
         \<lparr>ID = ''uuid-'', Type = EntityTypeProjectile, Position = \<lparr>X = 0, Y = 0\<rparr>, Alive = True,
          ProjectileType = ''basic'', Target = ''e2'', Speed = 5, Damage = 10, SplashRadius = 0\<rparr>)]
   \<and> snd (CombatSystem_Update cfgA uuidA 0 (worldC, 0)) = 1"
proof -
  have tw: "map_of (towers worldC) ''t1'' = Some (towerP ''t1'' \<lparr>X = 0, Y = 0\<rparr>)"
    by (simp add: worldC_def)
  have pc: "GameConfig.Projectiles cfgA (projType_of (towerP ''t1'' \<lparr>X = 0, Y = 0\<rparr>))
              = Some \<lparr>ProjectileConfig.Speed = 5\<rparr>"
    by (simp add: cfgA_def projType_of_def towerP_def)
  have f: "fires cfgA 0 (GetEnemies worldC) (towerP ''t1'' \<lparr>X = 0, Y = 0\<rparr>)"
    by (simp add: fires_def CanShoot_towerP nearest_C_alive pc) (simp add: towerP_def)
  have ready: "TowerEntity.FireRate (towerP ''t1'' \<lparr>X = 0, Y = 0\<rparr>) \<noteq> 0
     \<and> 1 / TowerEntity.FireRate (towerP ''t1'' \<lparr>X = 0, Y = 0\<rparr>)
         \<le> Seconds (0 - LastShot (towerP ''t1'' \<lparr>X = 0, Y = 0\<rparr>))
     \<and> Alive (towerP ''t1'' \<lparr>X = 0, Y = 0\<rparr>)"
    by (simp add: towerP_def Seconds_def Hour_def Second_def)
  have sp: "spawned cfgA uuidA 0 (GetEnemies worldC) (GetTowers worldC) 0 =
      [fired_projectile ''uuid-'' (towerP ''t1'' \<lparr>X = 0, Y = 0\<rparr>)
         (enemyC ''e2'' \<lparr>X = 30, Y = 40\<rparr> True) \<lparr>ProjectileConfig.Speed = 5\<rparr>]"
    using ready by (simp add: GetTowers_worldC CanShoot_towerP nearest_C_alive pc uuidA_simps)
  have fp: "fired_projectile ''uuid-'' (towerP ''t1'' \<lparr>X = 0, Y = 0\<rparr>)
         (enemyC ''e2'' \<lparr>X = 30, Y = 40\<rparr> True) \<lparr>ProjectileConfig.Speed = 5\<rparr>
       = \<lparr>ID = ''uuid-'', Type = EntityTypeProjectile, Position = \<lparr>X = 0, Y = 0\<rparr>, Alive = True,
          ProjectileType = ''basic'', Target = ''e2'', Speed = 5, Damage = 10, SplashRadius = 0\<rparr>"
    by (simp add: fired_projectile_def towerP_def projType_of_def)
  have pw: "projectiles worldC = []"
    by (simp add: worldC_def)
  show ?thesis
    using tower_fires_at_nearest [OF keys_ok_worldC tw, of cfgA uuidA 0 enemiesC 0] ready
    by (simp add: nearest_C nearest_C_alive CanShoot_towerP pc f sp fp pw GetTowers_worldC
        tower_dist_C uuidA_simps)
qed

text \<open>
  Against claim C8 as stated: the tower is alive, an hour has passed since its last shot at
  a fire rate of one per second, and an alive enemy stands 50 units away within its range of
  100; the configuration holds no projectile archetype, \<open>CreateProjectile\<close> returns its
  error, and the stage spawns nothing and leaves the tower's last shot as it was.
\<close>

theorem ready_tower_without_archetype_holds_fire:
  "Alive (towerP ''t1'' \<lparr>X = 0, Y = 0\<rparr>)
   \<and> Seconds (0 - LastShot (towerP ''t1'' \<lparr>X = 0, Y = 0\<rparr>))
       \<ge> 1 / TowerEntity.FireRate (towerP ''t1'' \<lparr>X = 0, Y = 0\<rparr>)
   \<and> GetTowers worldC = [towerP ''t1'' \<lparr>X = 0, Y = 0\<rparr>]
   \<and> enemyC ''e2'' \<lparr>X = 30, Y = 40\<rparr> True \<in> set (GetEnemies worldC)
   \<and> tower_dist (towerP ''t1'' \<lparr>X = 0, Y = 0\<rparr>) (enemyC ''e2'' \<lparr>X = 30, Y = 40\<rparr> True) = 50
   \<and> TowerEntity.Range (towerP ''t1'' \<lparr>X = 0, Y = 0\<rparr>) = 100
   \<and> CombatSystem_Update cfgNoProj uuidA 0 (worldC, 0) = (worldC, 0)"
proof -
  have tw: "map_of (towers worldC) ''t1'' = Some (towerP ''t1'' \<lparr>X = 0, Y = 0\<rparr>)"
    by (simp add: worldC_def)
  have "combat_step cfgNoProj uuidA 0 (GetEnemies worldC) ''t1'' (worldC, 0) = (worldC, 0)"
    unfolding combat_step_eq [OF tw]
    by (simp add: nearest_C_alive cfgNoProj_def)
  then have "CombatSystem_Update cfgNoProj uuidA 0 (worldC, 0) = (worldC, 0)"
    by (simp add: CombatSystem_Update_def GetTowers_worldC Let_def) (simp add: towerP_def)
  then show ?thesis
    by (simp add: GetTowers_worldC GetEnemies_worldC tower_dist_C)
       (simp add: towerP_def Seconds_def Hour_def Second_def)
qed








lemma ID_splash_hit [simp]: "ID (splash_hit pos r d i e) = ID e"
  by (simp add: splash_hit_def Let_def)


























lemma not_issued_e1: "''e1'' \<notin> range uuidA"
  by (auto simp: uuidA_def)



end
